theory Spec2Isabelle
  imports Complex_Main "HOL-Library.AList" "HOL-Library.Multiset"
    "HOL-Library.Char_ord" "HOL-Library.List_Lexorder"
begin

section \<open>Data model (models/models.py)\<close>

text \<open>
  Python \<^verbatim>\<open>str\<close> is \<open>string\<close>, \<^verbatim>\<open>Optional[T]\<close> is \<open>T option\<close>, a \<^verbatim>\<open>Dict[str, T]\<close> is an
  association list with distinct keys in insertion order, and a \<^verbatim>\<open>float\<close> is a \<open>real\<close>
  (no arithmetic is done on scores, they are only stored and copied).
\<close>

record Article =
  url :: string
  title :: string
  content :: string
  publish_date :: "string option"
  authors :: "string list option"
  summary :: "string option"
  summary_short :: "string option"
  summary_bullets :: "string list option"
  summary_extended :: "string option"
  event_type :: "string option"
  event_type_reasoning :: "string option"
  importance_score :: "real option"
  importance_reasoning :: "string option"
  sentiment :: "string option"
  sentiment_score :: "real option"
  sentiment_reasoning :: "string option"
  ticker_sentiments :: "(string \<times> real) list option"
  ticker_sentiment_reasoning :: "(string \<times> string) list option"
  tickers :: "string list option"
  primary_ticker :: "string option"
  primary_ticker_reasoning :: "string option"
  sectors :: "string list option"
  sector_reasoning :: "string option"
  industry :: "string list option"
  industry_reasoning :: "string option"
  keywords_list :: "string list option"
  keyword_map :: "(string \<times> string list) list option"
  keyword_reasoning :: "string option"
  entities :: "string list option"
  market_session :: "string option"
  market_session_reasoning :: "string option"
  source :: "string option"

record TickerSentiment =
  ticker :: string
  score :: real
  reasoning :: "string option"

record KeywordGroup =
  category :: string
  items :: "string list"

record LlmSummary =
  l_summary_short :: "string option"
  l_summary_bullets :: "string list option"
  l_summary_extended :: "string option"
  l_event_type :: "string option"
  l_event_type_reasoning :: "string option"
  l_importance_score :: "real option"
  l_importance_reasoning :: "string option"
  l_sentiment :: "string option"
  l_sentiment_score :: "real option"
  l_sentiment_reasoning :: "string option"
  l_tickers :: "string list option"
  l_primary_ticker :: "string option"
  l_primary_ticker_reasoning :: "string option"
  l_sectors :: "string list option"
  l_sector_reasoning :: "string option"
  l_industry :: "string list option"
  l_industry_reasoning :: "string option"
  l_keywords_list :: "string list option"
  l_keyword_groups :: "KeywordGroup list option"
  l_keyword_reasoning :: "string option"
  l_entities :: "string list option"
  l_market_session :: "string option"
  l_market_session_reasoning :: "string option"
  l_source :: "string option"
  l_ticker_sentiment_items :: "TickerSentiment list option"

section \<open>Python values and dictionaries\<close>

text \<open>
  The values that \<^verbatim>\<open>model_dump()\<close> puts into a dictionary. Nested models
  (\<^verbatim>\<open>TickerSentiment\<close>, \<^verbatim>\<open>KeywordGroup\<close>) stay records: the code only reads their
  fields with \<^verbatim>\<open>.get\<close>. A Mongo \<^verbatim>\<open>ObjectId\<close> is a natural number: identities are only
  compared, and a later insert gets a larger one.
\<close>

datatype pyval =
    PNone
  | PStr string
  | PFloat real
  | PStrList "string list"
  | PFloatDict "(string \<times> real) list"
  | PStrDict "(string \<times> string) list"
  | PListDict "(string \<times> string list) list"
  | PTickerItems "TickerSentiment list"
  | PKeywordGroups "KeywordGroup list"
  | PObjectId nat

type_synonym pydict = "(string \<times> pyval) list"

definition of_str :: "string option \<Rightarrow> pyval" where
  "of_str x = (case x of None \<Rightarrow> PNone | Some s \<Rightarrow> PStr s)"

definition of_float :: "real option \<Rightarrow> pyval" where
  "of_float x = (case x of None \<Rightarrow> PNone | Some r \<Rightarrow> PFloat r)"

definition of_strlist :: "string list option \<Rightarrow> pyval" where
  "of_strlist x = (case x of None \<Rightarrow> PNone | Some xs \<Rightarrow> PStrList xs)"

definition of_floatdict :: "(string \<times> real) list option \<Rightarrow> pyval" where
  "of_floatdict x = (case x of None \<Rightarrow> PNone | Some d \<Rightarrow> PFloatDict d)"

definition of_strdict :: "(string \<times> string) list option \<Rightarrow> pyval" where
  "of_strdict x = (case x of None \<Rightarrow> PNone | Some d \<Rightarrow> PStrDict d)"

definition of_listdict :: "(string \<times> string list) list option \<Rightarrow> pyval" where
  "of_listdict x = (case x of None \<Rightarrow> PNone | Some d \<Rightarrow> PListDict d)"

definition of_ticker_items :: "TickerSentiment list option \<Rightarrow> pyval" where
  "of_ticker_items x = (case x of None \<Rightarrow> PNone | Some d \<Rightarrow> PTickerItems d)"

definition of_keyword_groups :: "KeywordGroup list option \<Rightarrow> pyval" where
  "of_keyword_groups x = (case x of None \<Rightarrow> PNone | Some d \<Rightarrow> PKeywordGroups d)"

fun to_str :: "pyval \<Rightarrow> string option" where
  "to_str (PStr s) = Some s"
| "to_str _ = None"

fun to_float :: "pyval \<Rightarrow> real option" where
  "to_float (PFloat r) = Some r"
| "to_float _ = None"

fun to_strlist :: "pyval \<Rightarrow> string list option" where
  "to_strlist (PStrList xs) = Some xs"
| "to_strlist _ = None"

fun to_floatdict :: "pyval \<Rightarrow> (string \<times> real) list option" where
  "to_floatdict (PFloatDict d) = Some d"
| "to_floatdict _ = None"

fun to_strdict :: "pyval \<Rightarrow> (string \<times> string) list option" where
  "to_strdict (PStrDict d) = Some d"
| "to_strdict _ = None"

fun to_listdict :: "pyval \<Rightarrow> (string \<times> string list) list option" where
  "to_listdict (PListDict d) = Some d"
| "to_listdict _ = None"

text \<open>
  \<^verbatim>\<open>d[k] = v\<close> is \<open>AList.update k v d\<close> (in place when the key exists, appended otherwise)
  and \<^verbatim>\<open>d.pop(k, None)\<close> returns \<open>map_of d k\<close> and leaves \<open>AList.delete k d\<close>.
\<close>

subsection \<open>String helpers\<close>

text \<open>
  \<^verbatim>\<open>str.upper\<close> and \<^verbatim>\<open>str.strip\<close>. A \<open>char\<close> is a code point below 256. The letters a to z
  and the lower-case letters from 224 to 254 (247 is the division sign) are raised by
  32; the three letters below 256 whose upper case is not a single code point below
  256 (181, 223 and 255) stay as they are. The white space of \<^verbatim>\<open>str.isspace\<close> below 256
  is stripped from both ends.
\<close>

definition py_upper_char :: "char \<Rightarrow> char" where
  "py_upper_char c =
     (let n = (of_char c :: nat)
      in if (97 \<le> n \<and> n \<le> 122) \<or> (224 \<le> n \<and> n \<le> 254 \<and> n \<noteq> 247)
         then char_of (n - 32) else c)"

definition py_upper :: "string \<Rightarrow> string" where
  "py_upper s = map py_upper_char s"

definition py_isspace :: "char \<Rightarrow> bool" where
  "py_isspace c =
     (let n = (of_char c :: nat)
      in n = 32 \<or> (9 \<le> n \<and> n \<le> 13) \<or> (28 \<le> n \<and> n \<le> 31) \<or> n = 133 \<or> n = 160)"

definition py_strip :: "string \<Rightarrow> string" where
  "py_strip s = rev (dropWhile py_isspace (rev (dropWhile py_isspace s)))"

section \<open>Enrichment adapter (services/llm/gemini_service.py)\<close>

text \<open>
  \<^verbatim>\<open>LlmSummary.model_dump()\<close>: every declared field is a key of the dictionary, a field
  that is \<^verbatim>\<open>None\<close> included (the call passes no \<^verbatim>\<open>exclude_none\<close>). The selectors of
  \<open>LlmSummary\<close> carry the prefix \<open>l_\<close> only because \<open>Article\<close> owns the plain names; the
  keys are the Python field names.
\<close>

definition model_dump_llm :: "LlmSummary \<Rightarrow> pydict" where
  "model_dump_llm llm =
     [(''summary_short'', of_str (l_summary_short llm)),
      (''summary_bullets'', of_strlist (l_summary_bullets llm)),
      (''summary_extended'', of_str (l_summary_extended llm)),
      (''event_type'', of_str (l_event_type llm)),
      (''event_type_reasoning'', of_str (l_event_type_reasoning llm)),
      (''importance_score'', of_float (l_importance_score llm)),
      (''importance_reasoning'', of_str (l_importance_reasoning llm)),
      (''sentiment'', of_str (l_sentiment llm)),
      (''sentiment_score'', of_float (l_sentiment_score llm)),
      (''sentiment_reasoning'', of_str (l_sentiment_reasoning llm)),
      (''tickers'', of_strlist (l_tickers llm)),
      (''primary_ticker'', of_str (l_primary_ticker llm)),
      (''primary_ticker_reasoning'', of_str (l_primary_ticker_reasoning llm)),
      (''sectors'', of_strlist (l_sectors llm)),
      (''sector_reasoning'', of_str (l_sector_reasoning llm)),
      (''industry'', of_strlist (l_industry llm)),
      (''industry_reasoning'', of_str (l_industry_reasoning llm)),
      (''keywords'', of_strlist (l_keywords_list llm)),
      (''keyword_groups'', of_keyword_groups (l_keyword_groups llm)),
      (''keyword_reasoning'', of_str (l_keyword_reasoning llm)),
      (''entities'', of_strlist (l_entities llm)),
      (''market_session'', of_str (l_market_session llm)),
      (''market_session_reasoning'', of_str (l_market_session_reasoning llm)),
      (''source'', of_str (l_source llm)),
      (''ticker_sentiment_items'', of_ticker_items (l_ticker_sentiment_items llm))]"

text \<open>
  The loop of \<^verbatim>\<open>to_article_fields\<close> over \<^verbatim>\<open>ticker_sentiment_items\<close>. The \<^verbatim>\<open>score\<close> of a
  \<^verbatim>\<open>TickerSentiment\<close> is a required float, so the \<^verbatim>\<open>isinstance\<close> test holds and the score
  is always stored.
\<close>

fun ticker_items_loop ::
  "TickerSentiment list \<Rightarrow> (string \<times> real) list \<times> (string \<times> string) list \<Rightarrow>
   (string \<times> real) list \<times> (string \<times> string) list" where
  "ticker_items_loop [] acc = acc"
| "ticker_items_loop (it # its) (sentiments_acc, reasoning_acc) =
     (let t = py_strip (py_upper (ticker it)) in
      if t = [] then ticker_items_loop its (sentiments_acc, reasoning_acc)
      else
        ticker_items_loop its
          (AList.update t (score it) sentiments_acc,
           (case reasoning it of
              None \<Rightarrow> reasoning_acc
            | Some r \<Rightarrow> if r = [] then reasoning_acc
                        else AList.update t r reasoning_acc)))"

text \<open>The loop over \<^verbatim>\<open>keyword_groups\<close>.\<close>

fun keyword_groups_loop ::
  "KeywordGroup list \<Rightarrow> (string \<times> string list) list \<Rightarrow> (string \<times> string list) list" where
  "keyword_groups_loop [] kmap = kmap"
| "keyword_groups_loop (g # gs) kmap =
     (let cat = py_strip (category g) in
      if cat = [] then keyword_groups_loop gs kmap
      else keyword_groups_loop gs (AList.update cat (items g) kmap))"

definition to_article_fields :: "LlmSummary \<Rightarrow> pydict" where
  "to_article_fields llm =
     (let data0 = model_dump_llm llm;
          its = (case map_of data0 ''ticker_sentiment_items'' of
                   Some (PTickerItems xs) \<Rightarrow> xs | _ \<Rightarrow> []);
          data1 = AList.delete ''ticker_sentiment_items'' data0;
          tl = ticker_items_loop its ([], []);
          data2 = AList.update ''ticker_sentiments''
                    (if fst tl = [] then PNone else PFloatDict (fst tl)) data1;
          data3 = AList.update ''ticker_sentiment_reasoning''
                    (if snd tl = [] then PNone else PStrDict (snd tl)) data2;
          groups = (case map_of data3 ''keyword_groups'' of
                      Some (PKeywordGroups gs) \<Rightarrow> gs | _ \<Rightarrow> []);
          data4 = AList.delete ''keyword_groups'' data3;
          km = keyword_groups_loop groups []
      in AList.update ''keyword_map'' (if km = [] then PNone else PListDict km) data4)"

text \<open>
  \<^verbatim>\<open>summarize_article\<close>: the request to the model is the external client, a function
  from the article to the parsed \<^verbatim>\<open>LlmSummary\<close>, or \<open>None\<close> when \<^verbatim>\<open>send_request\<close> caught
  an error or parsed nothing.
\<close>

type_synonym llm_client = "Article \<Rightarrow> LlmSummary option"

definition summarize_article :: "llm_client \<Rightarrow> Article \<Rightarrow> pydict option" where
  "summarize_article client article =
     (case client article of
        None \<Rightarrow> None
      | Some response \<Rightarrow> Some (to_article_fields response))"

section \<open>Merging enrichment fields (\<^verbatim>\<open>Article.model_copy(update=...)\<close>)\<close>

text \<open>
  \<^verbatim>\<open>model_copy(update=d)\<close> copies the model and then writes every key of \<open>d\<close> into the
  copy, without validation and whatever the value, \<^verbatim>\<open>None\<close> included. One write is
  \<open>setattr_article\<close>. The record is typed, so a value of another type than the field's
  is outside the model (a required string keeps its value, an optional field reads as
  \<open>None\<close>); \<open>to_article_fields\<close> only produces values of the declared types. A key that
  is no field of \<open>Article\<close> changes no field.
\<close>

definition setattr_article :: "Article \<Rightarrow> string \<Rightarrow> pyval \<Rightarrow> Article" where
  "setattr_article a k v =
     (if k = ''url'' then (case v of PStr s \<Rightarrow> a\<lparr>url := s\<rparr> | _ \<Rightarrow> a)
      else if k = ''title'' then (case v of PStr s \<Rightarrow> a\<lparr>title := s\<rparr> | _ \<Rightarrow> a)
      else if k = ''content'' then (case v of PStr s \<Rightarrow> a\<lparr>content := s\<rparr> | _ \<Rightarrow> a)
      else if k = ''publish_date'' then a\<lparr>publish_date := to_str v\<rparr>
      else if k = ''authors'' then a\<lparr>authors := to_strlist v\<rparr>
      else if k = ''summary'' then a\<lparr>summary := to_str v\<rparr>
      else if k = ''summary_short'' then a\<lparr>summary_short := to_str v\<rparr>
      else if k = ''summary_bullets'' then a\<lparr>summary_bullets := to_strlist v\<rparr>
      else if k = ''summary_extended'' then a\<lparr>summary_extended := to_str v\<rparr>
      else if k = ''event_type'' then a\<lparr>event_type := to_str v\<rparr>
      else if k = ''event_type_reasoning'' then a\<lparr>event_type_reasoning := to_str v\<rparr>
      else if k = ''importance_score'' then a\<lparr>importance_score := to_float v\<rparr>
      else if k = ''importance_reasoning'' then a\<lparr>importance_reasoning := to_str v\<rparr>
      else if k = ''sentiment'' then a\<lparr>sentiment := to_str v\<rparr>
      else if k = ''sentiment_score'' then a\<lparr>sentiment_score := to_float v\<rparr>
      else if k = ''sentiment_reasoning'' then a\<lparr>sentiment_reasoning := to_str v\<rparr>
      else if k = ''ticker_sentiments'' then a\<lparr>ticker_sentiments := to_floatdict v\<rparr>
      else if k = ''ticker_sentiment_reasoning'' then a\<lparr>ticker_sentiment_reasoning := to_strdict v\<rparr>
      else if k = ''tickers'' then a\<lparr>tickers := to_strlist v\<rparr>
      else if k = ''primary_ticker'' then a\<lparr>primary_ticker := to_str v\<rparr>
      else if k = ''primary_ticker_reasoning'' then a\<lparr>primary_ticker_reasoning := to_str v\<rparr>
      else if k = ''sectors'' then a\<lparr>sectors := to_strlist v\<rparr>
      else if k = ''sector_reasoning'' then a\<lparr>sector_reasoning := to_str v\<rparr>
      else if k = ''industry'' then a\<lparr>industry := to_strlist v\<rparr>
      else if k = ''industry_reasoning'' then a\<lparr>industry_reasoning := to_str v\<rparr>
      else if k = ''keywords'' then a\<lparr>keywords_list := to_strlist v\<rparr>
      else if k = ''keyword_map'' then a\<lparr>keyword_map := to_listdict v\<rparr>
      else if k = ''keyword_reasoning'' then a\<lparr>keyword_reasoning := to_str v\<rparr>
      else if k = ''entities'' then a\<lparr>entities := to_strlist v\<rparr>
      else if k = ''market_session'' then a\<lparr>market_session := to_str v\<rparr>
      else if k = ''market_session_reasoning'' then a\<lparr>market_session_reasoning := to_str v\<rparr>
      else if k = ''source'' then a\<lparr>source := to_str v\<rparr>
      else a)"

definition model_copy_update :: "Article \<Rightarrow> pydict \<Rightarrow> Article" where
  "model_copy_update a d = foldl (\<lambda>acc kv. setattr_article acc (fst kv) (snd kv)) a d"

text \<open>Reading a field by name; \<open>None\<close> when \<open>Article\<close> declares no such field.\<close>

definition getattr_article :: "Article \<Rightarrow> string \<Rightarrow> pyval option" where
  "getattr_article a k =
     (if k = ''url'' then Some (PStr (url a))
      else if k = ''title'' then Some (PStr (title a))
      else if k = ''content'' then Some (PStr (content a))
      else if k = ''publish_date'' then Some (of_str (publish_date a))
      else if k = ''authors'' then Some (of_strlist (authors a))
      else if k = ''summary'' then Some (of_str (summary a))
      else if k = ''summary_short'' then Some (of_str (summary_short a))
      else if k = ''summary_bullets'' then Some (of_strlist (summary_bullets a))
      else if k = ''summary_extended'' then Some (of_str (summary_extended a))
      else if k = ''event_type'' then Some (of_str (event_type a))
      else if k = ''event_type_reasoning'' then Some (of_str (event_type_reasoning a))
      else if k = ''importance_score'' then Some (of_float (importance_score a))
      else if k = ''importance_reasoning'' then Some (of_str (importance_reasoning a))
      else if k = ''sentiment'' then Some (of_str (sentiment a))
      else if k = ''sentiment_score'' then Some (of_float (sentiment_score a))
      else if k = ''sentiment_reasoning'' then Some (of_str (sentiment_reasoning a))
      else if k = ''ticker_sentiments'' then Some (of_floatdict (ticker_sentiments a))
      else if k = ''ticker_sentiment_reasoning'' then Some (of_strdict (ticker_sentiment_reasoning a))
      else if k = ''tickers'' then Some (of_strlist (tickers a))
      else if k = ''primary_ticker'' then Some (of_str (primary_ticker a))
      else if k = ''primary_ticker_reasoning'' then Some (of_str (primary_ticker_reasoning a))
      else if k = ''sectors'' then Some (of_strlist (sectors a))
      else if k = ''sector_reasoning'' then Some (of_str (sector_reasoning a))
      else if k = ''industry'' then Some (of_strlist (industry a))
      else if k = ''industry_reasoning'' then Some (of_str (industry_reasoning a))
      else if k = ''keywords'' then Some (of_strlist (keywords_list a))
      else if k = ''keyword_map'' then Some (of_listdict (keyword_map a))
      else if k = ''keyword_reasoning'' then Some (of_str (keyword_reasoning a))
      else if k = ''entities'' then Some (of_strlist (entities a))
      else if k = ''market_session'' then Some (of_str (market_session a))
      else if k = ''market_session_reasoning'' then Some (of_str (market_session_reasoning a))
      else if k = ''source'' then Some (of_str (source a))
      else None)"

definition article_fields :: "string list" where
  "article_fields =
     [''url'',
      ''title'',
      ''content'',
      ''publish_date'',
      ''authors'',
      ''summary'',
      ''summary_short'',
      ''summary_bullets'',
      ''summary_extended'',
      ''event_type'',
      ''event_type_reasoning'',
      ''importance_score'',
      ''importance_reasoning'',
      ''sentiment'',
      ''sentiment_score'',
      ''sentiment_reasoning'',
      ''ticker_sentiments'',
      ''ticker_sentiment_reasoning'',
      ''tickers'',
      ''primary_ticker'',
      ''primary_ticker_reasoning'',
      ''sectors'',
      ''sector_reasoning'',
      ''industry'',
      ''industry_reasoning'',
      ''keywords'',
      ''keyword_map'',
      ''keyword_reasoning'',
      ''entities'',
      ''market_session'',
      ''market_session_reasoning'',
      ''source'']"

section \<open>Pipeline controller (pipelines/article_pipeline_controller.py)\<close>

datatype error =
    ScraperError string
  | InvalidOperation
  | DatabaseError error

subsection \<open>Fetch coordinator\<close>

text \<open>
  A source adapter is external: what matters of it is its name and what its \<^verbatim>\<open>scrape()\<close>
  does at this run, which is to raise or to return a list of articles.
\<close>

datatype scrape_outcome = Raises | Returns "Article list"

record scraper =
  scraper_name :: string
  scrape :: scrape_outcome

text \<open>
  \<^verbatim>\<open>sorted(articles, key=lambda article: article.publish_date or "", reverse=True)\<close>.
  Python's sort is stable and \<^verbatim>\<open>reverse=True\<close> keeps the original order of equal keys:
  it is the stable ascending sort of the reversed list, reversed. Strings are compared
  lexicographically by character code.
\<close>

definition publish_key :: "Article \<Rightarrow> string" where
  "publish_key article = (case publish_date article of None \<Rightarrow> [] | Some d \<Rightarrow> d)"

definition sorted_reverse :: "('a \<Rightarrow> string) \<Rightarrow> 'a list \<Rightarrow> 'a list" where
  "sorted_reverse key xs = rev (sort_key key (rev xs))"

text \<open>
  The sequential branch: \<^verbatim>\<open>for s in self.active_scrapers: articles.extend(s.scrape())\<close>.
  There is no handler, so a raising adapter ends the loop and the call. The second
  component lists the adapters whose \<^verbatim>\<open>scrape\<close> was called, in call order.
\<close>

fun scrape_sequential ::
  "scraper list \<Rightarrow> string list \<Rightarrow> Article list \<Rightarrow> string list \<times> (error + Article list)" where
  "scrape_sequential [] called articles = (called, Inr articles)"
| "scrape_sequential (s # ss) called articles =
     (case scrape s of
        Raises \<Rightarrow> (called @ [scraper_name s], Inl (ScraperError (scraper_name s)))
      | Returns result \<Rightarrow> scrape_sequential ss (called @ [scraper_name s]) (articles @ result))"

text \<open>
  The concurrent branch: every adapter is submitted to the pool, and the futures are
  read in completion order; a raising future is logged and skipped, an empty result is
  skipped.
\<close>

fun collect_completed :: "scraper list \<Rightarrow> Article list \<Rightarrow> Article list" where
  "collect_completed [] articles = articles"
| "collect_completed (s # ss) articles =
     (case scrape s of
        Raises \<Rightarrow> collect_completed ss articles
      | Returns result \<Rightarrow>
          if result = [] then collect_completed ss articles
          else collect_completed ss (articles @ result))"

record fetch_run =
  called :: "string list"
  returned :: "error + Article list"

text \<open>
  \<open>completed\<close> is the order in which \<^verbatim>\<open>as_completed\<close> yields the futures, some
  permutation of the active adapters chosen by the scheduler; the sequential branch
  does not read it.
\<close>

definition fetch_latest_news_articles ::
  "bool \<Rightarrow> scraper list \<Rightarrow> scraper list \<Rightarrow> fetch_run" where
  "fetch_latest_news_articles asynchronous active_scrapers completed =
     (if \<not> asynchronous then
        (case scrape_sequential active_scrapers [] [] of
           (cs, Inl e) \<Rightarrow> \<lparr>called = cs, returned = Inl e\<rparr>
         | (cs, Inr articles) \<Rightarrow>
             \<lparr>called = cs, returned = Inr (sorted_reverse publish_key articles)\<rparr>)
      else
        \<lparr>called = map scraper_name active_scrapers,
         returned = Inr (sorted_reverse publish_key (collect_completed completed []))\<rparr>)"

subsection \<open>Enrichment of one article\<close>

text \<open>
  \<^verbatim>\<open>_process_one\<close>: \<open>None\<close> when the summary is \<^verbatim>\<open>None\<close> or an empty dictionary, the merged
  copy otherwise. Its \<^verbatim>\<open>except Exception\<close> also returns \<open>None\<close>; nothing in the model of
  \<open>summarize_article\<close> raises.
\<close>

definition process_one :: "llm_client \<Rightarrow> Article \<Rightarrow> Article option" where
  "process_one client article =
     (case summarize_article client article of
        None \<Rightarrow> None
      | Some llm_fields \<Rightarrow>
          if llm_fields = [] then None else Some (model_copy_update article llm_fields))"

section \<open>Article store (services/database/article_service.py)\<close>

text \<open>
  A document of the \<^verbatim>\<open>articles\<close> collection. \<^verbatim>\<open>model_dump(exclude_none=True)\<close> keeps
  exactly the fields that are not \<^verbatim>\<open>None\<close>, and \<^verbatim>\<open>Article(**doc)\<close> reads a missing key as
  \<^verbatim>\<open>None\<close>, so the dumped fields are the \<open>Article\<close> itself. Time stamps and run
  identifiers are natural numbers.
\<close>

record doc =
  d_fields :: Article
  created_at :: nat
  pipeline_run_id :: "nat option"

record stored =
  oid :: nat
  stored_doc :: doc

type_synonym collection = "stored list"

definition stored_url :: "stored \<Rightarrow> string" where
  "stored_url s = url (d_fields (stored_doc s))"

text \<open>
  The driver's operations, as MongoDB documents them.
  \<^verbatim>\<open>UpdateOne({"url": u}, {"$setOnInsert": d}, upsert=True)\<close> leaves the collection as it
  is when a document with that url exists, and otherwise inserts \<open>d\<close> with the url of
  the filter under a new identity, larger than every identity in the collection.
  \<^verbatim>\<open>bulk_write\<close> runs the operations in order, rejects an empty list with
  \<^verbatim>\<open>InvalidOperation\<close>, and reports the identities it inserted by operation index.
\<close>

datatype write_op = UpdateOne string doc

definition new_oid :: "collection \<Rightarrow> nat" where
  "new_oid coll = Suc (fold max (map oid coll) 0)"

fun update_one :: "collection \<Rightarrow> write_op \<Rightarrow> collection \<times> nat option" where
  "update_one coll (UpdateOne u d) =
     (if u \<in> set (map stored_url coll) then (coll, None)
      else
        (coll @ [\<lparr>oid = new_oid coll,
                  stored_doc = d\<lparr>d_fields := (d_fields d)\<lparr>url := u\<rparr>\<rparr>\<rparr>],
         Some (new_oid coll)))"

record bulk_result =
  upserted_count :: int
  upserted_ids :: "(nat \<times> nat) list"

fun bulk_loop ::
  "write_op list \<Rightarrow> nat \<Rightarrow> collection \<Rightarrow> (nat \<times> nat) list \<Rightarrow> collection \<times> (nat \<times> nat) list" where
  "bulk_loop [] op_idx coll ups = (coll, ups)"
| "bulk_loop (w # ws) op_idx coll ups =
     (case update_one coll w of
        (coll', None) \<Rightarrow> bulk_loop ws (Suc op_idx) coll' ups
      | (coll', Some i) \<Rightarrow> bulk_loop ws (Suc op_idx) coll' (ups @ [(op_idx, i)]))"

definition bulk_write :: "collection \<Rightarrow> write_op list \<Rightarrow> error + bulk_result \<times> collection" where
  "bulk_write coll operations =
     (if operations = [] then Inl InvalidOperation
      else
        (case bulk_loop operations 0 coll [] of
           (coll', ups) \<Rightarrow>
             Inr (\<lparr>upserted_count = int (length ups), upserted_ids = ups\<rparr>, coll')))"

subsection \<open>\<^verbatim>\<open>insert_many_articles\<close>\<close>

text \<open>
  The first loop builds \<^verbatim>\<open>articles_batch\<close>, a dictionary from url to document, and
  skips an article whose url is already a key.
\<close>

fun articles_batch_loop ::
  "Article list \<Rightarrow> nat option \<Rightarrow> nat \<Rightarrow> (string \<times> doc) list \<Rightarrow> (string \<times> doc) list" where
  "articles_batch_loop [] run_id now articles_batch = articles_batch"
| "articles_batch_loop (article # rest) run_id now articles_batch =
     (if url article \<in> set (map fst articles_batch)
      then articles_batch_loop rest run_id now articles_batch
      else
        articles_batch_loop rest run_id now
          (AList.update (url article)
             \<lparr>d_fields = article, created_at = now, pipeline_run_id = run_id\<rparr>
             articles_batch))"

record insert_result =
  inserted_count :: int
  existing_count :: int
  total_unique_urls :: int
  inserted_ids :: "(string \<times> nat) list"

text \<open>
  The second loop builds \<^verbatim>\<open>operations\<close> in key order, each from its key and the document
  stored under it. A driver error is raised again wrapped in a plain \<^verbatim>\<open>Exception\<close>.
\<close>

definition operations_of :: "(string \<times> doc) list \<Rightarrow> write_op list" where
  "operations_of articles_batch = map (\<lambda>kv. UpdateOne (fst kv) (snd kv)) articles_batch"

definition insert_many_articles ::
  "collection \<Rightarrow> Article list \<Rightarrow> nat option \<Rightarrow> nat \<Rightarrow> error + insert_result \<times> collection" where
  "insert_many_articles coll articles run_id now =
     (let articles_batch = articles_batch_loop articles run_id now [];
          batch_urls = map fst articles_batch;
          total_unique = int (length batch_urls);
          operations = operations_of articles_batch
      in case bulk_write coll operations of
           Inl e \<Rightarrow> Inl (DatabaseError e)
         | Inr (res, coll') \<Rightarrow>
             (let ids = map (\<lambda>p. (batch_urls ! fst p, snd p)) (upserted_ids res);
                  inserted_total = upserted_count res;
                  existing_total = total_unique - inserted_total
              in Inr (\<lparr>inserted_count = inserted_total,
                        existing_count = existing_total,
                        total_unique_urls = total_unique,
                        inserted_ids = ids\<rparr>, coll')))"

subsection \<open>\<^verbatim>\<open>get_articles_batch\<close>\<close>

text \<open>
  Forward scan: the documents with \<^verbatim>\<open>_id\<close> above the cursor, by ascending \<^verbatim>\<open>_id\<close>, at
  most \<open>limit\<close> of them (Mongo reads a limit of 0 as no limit), each turned into an
  \<open>Article\<close>. \<open>Article\<close> declares no field for \<^verbatim>\<open>_id\<close>, \<^verbatim>\<open>created_at\<close> or
  \<^verbatim>\<open>pipeline_run_id\<close>, and the model ignores keys it does not declare: the result
  carries the article fields only.
\<close>

definition get_articles_batch :: "collection \<Rightarrow> nat \<Rightarrow> nat option \<Rightarrow> Article list" where
  "get_articles_batch coll limit last_id =
     (let matching = filter (\<lambda>s. case last_id of None \<Rightarrow> True | Some l \<Rightarrow> l < oid s) coll;
          ordered = sort_key oid matching;
          docs = (if limit = 0 then ordered else take limit ordered)
      in map (\<lambda>s. d_fields (stored_doc s)) docs)"

subsection \<open>\<^verbatim>\<open>upsert_many_articles\<close>\<close>

text \<open>
  Modelled from the spec: \<^verbatim>\<open>upsert_many_articles\<close> is called by \<^verbatim>\<open>backfill_articles\<close> but
  \<^verbatim>\<open>ArticleService\<close> does not define it. The spec gives it overwrite semantics keyed on
  the url: the stored article with that url is replaced and keeps its identity, and an
  article with a new url is inserted. The loop of the backfill takes the operation as
  a parameter; this definition is the instance used on concrete inputs.
\<close>

fun upsert_article :: "nat \<Rightarrow> collection \<Rightarrow> Article \<Rightarrow> collection" where
  "upsert_article now coll article =
     (if url article \<in> set (map stored_url coll) then
        map (\<lambda>s. if stored_url s = url article
                  then s\<lparr>stored_doc := (stored_doc s)\<lparr>d_fields := article\<rparr>\<rparr> else s) coll
      else
        coll @ [\<lparr>oid = new_oid coll,
                 stored_doc = \<lparr>d_fields = article, created_at = now, pipeline_run_id = None\<rparr>\<rparr>])"

definition upsert_many_articles :: "nat \<Rightarrow> collection \<Rightarrow> Article list \<Rightarrow> collection" where
  "upsert_many_articles now coll articles = foldl (upsert_article now) coll articles"

section \<open>Backfill (\<^verbatim>\<open>backfill_articles\<close>)\<close>

record counters =
  processed_total :: int
  updated_total :: int
  failed_total :: int

text \<open>
  What \<^verbatim>\<open>fut.result()\<close> gives for the future of \<^verbatim>\<open>_process_one\<close>: the worker catches
  every \<^verbatim>\<open>Exception\<close> itself, so the future holds a value. The futures come from
  \<^verbatim>\<open>as_completed\<close>, hence are done, and the optional timeout cannot expire.
\<close>

definition future_result :: "llm_client \<Rightarrow> Article \<Rightarrow> error + Article option" where
  "future_result client article = Inr (process_one client article)"

text \<open>
  The worker block of one page (``Run LLM workers''): the loop over the futures in
  completion order, with the three counters and \<^verbatim>\<open>updated_batch\<close>.
\<close>

fun run_llm_workers ::
  "llm_client \<Rightarrow> Article list \<Rightarrow> counters \<Rightarrow> Article list \<Rightarrow> counters \<times> Article list" where
  "run_llm_workers client [] c updated_batch = (c, updated_batch)"
| "run_llm_workers client (original # rest) c updated_batch =
     (case future_result client original of
        Inl e \<Rightarrow>
          run_llm_workers client rest (c\<lparr>failed_total := failed_total c + 1\<rparr>) updated_batch
      | Inr None \<Rightarrow>
          run_llm_workers client rest
            (c\<lparr>processed_total := processed_total c + 1, failed_total := failed_total c + 1\<rparr>)
            updated_batch
      | Inr (Some updated) \<Rightarrow>
          run_llm_workers client rest
            (c\<lparr>processed_total := processed_total c + 1, updated_total := updated_total c + 1\<rparr>)
            (updated_batch @ [updated]))"

text \<open>
  The cursor: \<^verbatim>\<open>getattr(batch[-1], "id", None) or getattr(batch[-1], "_id", None) or None\<close>.
  An attribute that \<open>Article\<close> does not declare reads as the default \<^verbatim>\<open>None\<close>.
\<close>

definition getattr_oid :: "Article \<Rightarrow> string \<Rightarrow> nat option" where
  "getattr_oid a k = (case getattr_article a k of Some (PObjectId i) \<Rightarrow> Some i | _ \<Rightarrow> None)"

definition cursor_of :: "Article \<Rightarrow> nat option" where
  "cursor_of a =
     (case getattr_oid a ''id'' of
        Some i \<Rightarrow> Some i
      | None \<Rightarrow> getattr_oid a ''_id'')"

text \<open>
  The state of the \<^verbatim>\<open>while True\<close> loop. \<open>pages\<close> is not in the source: it records every
  page that \<open>get_articles_batch\<close> returned, in order, so that the reads can be counted.
\<close>

record backfill_state =
  totals :: counters
  last_id :: "nat option"
  db :: collection
  pages :: "Article list list"

text \<open>
  The loop may run forever, so it takes fuel: \<open>None\<close> means that it has not returned
  within that many iterations. \<open>upsert\<close> is the store's upsert and \<open>completion\<close> the
  order in which the pool completes the futures of a page.
\<close>

fun backfill_loop ::
  "nat \<Rightarrow> (collection \<Rightarrow> Article list \<Rightarrow> collection) \<Rightarrow> llm_client \<Rightarrow>
   (Article list \<Rightarrow> Article list) \<Rightarrow> nat \<Rightarrow> int option \<Rightarrow> backfill_state \<Rightarrow>
   backfill_state option" where
  "backfill_loop 0 upsert client completion batch_size limit_total s = None"
| "backfill_loop (Suc fuel) upsert client completion batch_size limit_total s =
     (if (case limit_total of None \<Rightarrow> False | Some l \<Rightarrow> l \<le> processed_total (totals s))
      then Some s
      else
        (let batch = get_articles_batch (db s) batch_size (last_id s);
             s1 = s\<lparr>pages := pages s @ [batch]\<rparr>
         in if batch = [] then Some s1
            else
              (case run_llm_workers client (completion batch) (totals s) [] of
                 (c, updated_batch) \<Rightarrow>
                   backfill_loop fuel upsert client completion batch_size limit_total
                     (s1\<lparr>totals := c,
                         last_id := cursor_of (last batch),
                         db := (if updated_batch = [] then db s
                                else upsert (db s) updated_batch)\<rparr>))))"

definition backfill_articles ::
  "nat \<Rightarrow> (collection \<Rightarrow> Article list \<Rightarrow> collection) \<Rightarrow> llm_client \<Rightarrow>
   (Article list \<Rightarrow> Article list) \<Rightarrow> collection \<Rightarrow> nat \<Rightarrow> int option \<Rightarrow>
   backfill_state option" where
  "backfill_articles fuel upsert client completion coll batch_size limit_total =
     backfill_loop fuel upsert client completion batch_size limit_total
       \<lparr>totals = \<lparr>processed_total = 0, updated_total = 0, failed_total = 0\<rparr>,
        last_id = None, db = coll, pages = []\<rparr>"

section \<open>Notions used to state the properties\<close>

text \<open>
  The three dictionaries that \<open>to_article_fields\<close> derives from the nested items of an
  \<open>LlmSummary\<close>.
\<close>

definition derived_ticker_sentiments :: "LlmSummary \<Rightarrow> (string \<times> real) list" where
  "derived_ticker_sentiments llm =
     fst (ticker_items_loop
            (case l_ticker_sentiment_items llm of None \<Rightarrow> [] | Some xs \<Rightarrow> xs) ([], []))"

definition derived_ticker_reasoning :: "LlmSummary \<Rightarrow> (string \<times> string) list" where
  "derived_ticker_reasoning llm =
     snd (ticker_items_loop
            (case l_ticker_sentiment_items llm of None \<Rightarrow> [] | Some xs \<Rightarrow> xs) ([], []))"

definition derived_keyword_map :: "LlmSummary \<Rightarrow> (string \<times> string list) list" where
  "derived_keyword_map llm =
     keyword_groups_loop (case l_keyword_groups llm of None \<Rightarrow> [] | Some xs \<Rightarrow> xs) []"

text \<open>What an adapter contributes to a fetch, and whether it succeeded.\<close>

definition scraped :: "scraper \<Rightarrow> Article list" where
  "scraped s = (case scrape s of Raises \<Rightarrow> [] | Returns result \<Rightarrow> result)"

definition succeeded :: "scraper \<Rightarrow> bool" where
  "succeeded s = (case scrape s of Raises \<Rightarrow> False | Returns result \<Rightarrow> True)"

text \<open>An article has a timestamp when its \<open>publish_date\<close> is present and not empty.\<close>

definition has_timestamp :: "Article \<Rightarrow> bool" where
  "has_timestamp a = (case publish_date a of None \<Rightarrow> False | Some d \<Rightarrow> d \<noteq> [])"

text \<open>The filter of an operation, and the urls of a collection.\<close>

fun op_url :: "write_op \<Rightarrow> string" where
  "op_url (UpdateOne u d) = u"

definition urls_of :: "collection \<Rightarrow> string list" where
  "urls_of coll = map stored_url coll"




text \<open>An article with only its required fields, and a summary whose fields are all null.\<close>

definition bare_article :: "string \<Rightarrow> string \<Rightarrow> string \<Rightarrow> Article" where
  "bare_article u t c =
     \<lparr>url = u, title = t, content = c, publish_date = None, authors = None,
      summary = None, summary_short = None, summary_bullets = None,
      summary_extended = None, event_type = None, event_type_reasoning = None,
      importance_score = None, importance_reasoning = None, sentiment = None,
      sentiment_score = None, sentiment_reasoning = None, ticker_sentiments = None,
      ticker_sentiment_reasoning = None, tickers = None, primary_ticker = None,
      primary_ticker_reasoning = None, sectors = None, sector_reasoning = None,
      industry = None, industry_reasoning = None, keywords_list = None,
      keyword_map = None, keyword_reasoning = None, entities = None,
      market_session = None, market_session_reasoning = None, source = None\<rparr>"

definition null_summary :: LlmSummary where
  "null_summary =
     \<lparr>l_summary_short = None, l_summary_bullets = None, l_summary_extended = None,
      l_event_type = None, l_event_type_reasoning = None, l_importance_score = None,
      l_importance_reasoning = None, l_sentiment = None, l_sentiment_score = None,
      l_sentiment_reasoning = None, l_tickers = None, l_primary_ticker = None,
      l_primary_ticker_reasoning = None, l_sectors = None, l_sector_reasoning = None,
      l_industry = None, l_industry_reasoning = None, l_keywords_list = None,
      l_keyword_groups = None, l_keyword_reasoning = None, l_entities = None,
      l_market_session = None, l_market_session_reasoning = None, l_source = None,
      l_ticker_sentiment_items = None\<rparr>"




definition one_article_store :: collection where
  "one_article_store =
     [\<lparr>oid = 1,
       stored_doc = \<lparr>d_fields = bare_article ''u'' ''t'' ''c'', created_at = 0,
                      pipeline_run_id = None\<rparr>\<rparr>]"

section \<open>Properties of the enrichment merge\<close>

lemma to_of_str [simp]: "to_str (of_str x) = x"
  by (cases x) (simp_all add: of_str_def)

lemma to_of_float [simp]: "to_float (of_float x) = x"
  by (cases x) (simp_all add: of_float_def)

lemma to_of_strlist [simp]: "to_strlist (of_strlist x) = x"
  by (cases x) (simp_all add: of_strlist_def)

lemma to_article_fields_explicit: "to_article_fields llm = 
  [(''summary_short'', of_str (l_summary_short llm)),
      (''summary_bullets'', of_strlist (l_summary_bullets llm)),
      (''summary_extended'', of_str (l_summary_extended llm)),
      (''event_type'', of_str (l_event_type llm)),
      (''event_type_reasoning'', of_str (l_event_type_reasoning llm)),
      (''importance_score'', of_float (l_importance_score llm)),
      (''importance_reasoning'', of_str (l_importance_reasoning llm)),
      (''sentiment'', of_str (l_sentiment llm)),
      (''sentiment_score'', of_float (l_sentiment_score llm)),
      (''sentiment_reasoning'', of_str (l_sentiment_reasoning llm)),
      (''tickers'', of_strlist (l_tickers llm)),
      (''primary_ticker'', of_str (l_primary_ticker llm)),
      (''primary_ticker_reasoning'', of_str (l_primary_ticker_reasoning llm)),
      (''sectors'', of_strlist (l_sectors llm)),
      (''sector_reasoning'', of_str (l_sector_reasoning llm)),
      (''industry'', of_strlist (l_industry llm)),
      (''industry_reasoning'', of_str (l_industry_reasoning llm)),
      (''keywords'', of_strlist (l_keywords_list llm)),
      (''keyword_reasoning'', of_str (l_keyword_reasoning llm)),
      (''entities'', of_strlist (l_entities llm)),
      (''market_session'', of_str (l_market_session llm)),
      (''market_session_reasoning'', of_str (l_market_session_reasoning llm)),
      (''source'', of_str (l_source llm)),
      (''ticker_sentiments'', if derived_ticker_sentiments llm = [] then PNone else PFloatDict (derived_ticker_sentiments llm)),
      (''ticker_sentiment_reasoning'', if derived_ticker_reasoning llm = [] then PNone else PStrDict (derived_ticker_reasoning llm)),
      (''keyword_map'', if derived_keyword_map llm = [] then PNone else PListDict (derived_keyword_map llm))]"
  by (cases "l_ticker_sentiment_items llm"; cases "l_keyword_groups llm")
     (simp_all add: to_article_fields_def model_dump_llm_def Let_def derived_ticker_sentiments_def
        derived_ticker_reasoning_def derived_keyword_map_def
        of_ticker_items_def of_keyword_groups_def)

lemma model_copy_explicit:
  "model_copy_update a (to_article_fields llm) =
     a\<lparr>summary_short := l_summary_short llm,
       summary_bullets := l_summary_bullets llm,
       summary_extended := l_summary_extended llm,
       event_type := l_event_type llm,
       event_type_reasoning := l_event_type_reasoning llm,
       importance_score := l_importance_score llm,
       importance_reasoning := l_importance_reasoning llm,
       sentiment := l_sentiment llm,
       sentiment_score := l_sentiment_score llm,
       sentiment_reasoning := l_sentiment_reasoning llm,
       tickers := l_tickers llm,
       primary_ticker := l_primary_ticker llm,
       primary_ticker_reasoning := l_primary_ticker_reasoning llm,
       sectors := l_sectors llm,
       sector_reasoning := l_sector_reasoning llm,
       industry := l_industry llm,
       industry_reasoning := l_industry_reasoning llm,
       keywords_list := l_keywords_list llm,
       keyword_reasoning := l_keyword_reasoning llm,
       entities := l_entities llm,
       market_session := l_market_session llm,
       market_session_reasoning := l_market_session_reasoning llm,
       source := l_source llm,
       ticker_sentiments := (if derived_ticker_sentiments llm = [] then None else Some (derived_ticker_sentiments llm)),
       ticker_sentiment_reasoning := (if derived_ticker_reasoning llm = [] then None else Some (derived_ticker_reasoning llm)),
       keyword_map := (if derived_keyword_map llm = [] then None else Some (derived_keyword_map llm))\<rparr>"
  unfolding to_article_fields_explicit model_copy_update_def
  by (simp add: setattr_article_def)

lemma keys_to_article_fields: "map fst (to_article_fields llm) = 
  [''summary_short'', ''summary_bullets'', ''summary_extended'', ''event_type'', ''event_type_reasoning'',
   ''importance_score'', ''importance_reasoning'', ''sentiment'', ''sentiment_score'', ''sentiment_reasoning'',
   ''tickers'', ''primary_ticker'', ''primary_ticker_reasoning'', ''sectors'', ''sector_reasoning'',
   ''industry'', ''industry_reasoning'', ''keywords'', ''keyword_reasoning'', ''entities'',
   ''market_session'', ''market_session_reasoning'', ''source'', ''ticker_sentiments'',
   ''ticker_sentiment_reasoning'', ''keyword_map'']"
  by (simp add: to_article_fields_explicit)

lemma getattr_article_fields:
  "getattr_article b ''url'' = Some (PStr (url b))"
  "getattr_article b ''title'' = Some (PStr (title b))"
  "getattr_article b ''content'' = Some (PStr (content b))"
  "getattr_article b ''publish_date'' = Some (of_str (publish_date b))"
  "getattr_article b ''authors'' = Some (of_strlist (authors b))"
  "getattr_article b ''summary'' = Some (of_str (summary b))"
  "getattr_article b ''summary_short'' = Some (of_str (summary_short b))"
  "getattr_article b ''summary_bullets'' = Some (of_strlist (summary_bullets b))"
  "getattr_article b ''summary_extended'' = Some (of_str (summary_extended b))"
  "getattr_article b ''event_type'' = Some (of_str (event_type b))"
  "getattr_article b ''event_type_reasoning'' = Some (of_str (event_type_reasoning b))"
  "getattr_article b ''importance_score'' = Some (of_float (importance_score b))"
  "getattr_article b ''importance_reasoning'' = Some (of_str (importance_reasoning b))"
  "getattr_article b ''sentiment'' = Some (of_str (sentiment b))"
  "getattr_article b ''sentiment_score'' = Some (of_float (sentiment_score b))"
  "getattr_article b ''sentiment_reasoning'' = Some (of_str (sentiment_reasoning b))"
  "getattr_article b ''ticker_sentiments'' = Some (of_floatdict (ticker_sentiments b))"
  "getattr_article b ''ticker_sentiment_reasoning'' = Some (of_strdict (ticker_sentiment_reasoning b))"
  "getattr_article b ''tickers'' = Some (of_strlist (tickers b))"
  "getattr_article b ''primary_ticker'' = Some (of_str (primary_ticker b))"
  "getattr_article b ''primary_ticker_reasoning'' = Some (of_str (primary_ticker_reasoning b))"
  "getattr_article b ''sectors'' = Some (of_strlist (sectors b))"
  "getattr_article b ''sector_reasoning'' = Some (of_str (sector_reasoning b))"
  "getattr_article b ''industry'' = Some (of_strlist (industry b))"
  "getattr_article b ''industry_reasoning'' = Some (of_str (industry_reasoning b))"
  "getattr_article b ''keywords'' = Some (of_strlist (keywords_list b))"
  "getattr_article b ''keyword_map'' = Some (of_listdict (keyword_map b))"
  "getattr_article b ''keyword_reasoning'' = Some (of_str (keyword_reasoning b))"
  "getattr_article b ''entities'' = Some (of_strlist (entities b))"
  "getattr_article b ''market_session'' = Some (of_str (market_session b))"
  "getattr_article b ''market_session_reasoning'' = Some (of_str (market_session_reasoning b))"
  "getattr_article b ''source'' = Some (of_str (source b))"
  by (simp_all add: getattr_article_def)

lemma map_of_to_article_fields:
  "map_of (to_article_fields llm) ''summary_short'' = Some (of_str (l_summary_short llm))"
  "map_of (to_article_fields llm) ''summary_bullets'' = Some (of_strlist (l_summary_bullets llm))"
  "map_of (to_article_fields llm) ''summary_extended'' = Some (of_str (l_summary_extended llm))"
  "map_of (to_article_fields llm) ''event_type'' = Some (of_str (l_event_type llm))"
  "map_of (to_article_fields llm) ''event_type_reasoning'' = Some (of_str (l_event_type_reasoning llm))"
  "map_of (to_article_fields llm) ''importance_score'' = Some (of_float (l_importance_score llm))"
  "map_of (to_article_fields llm) ''importance_reasoning'' = Some (of_str (l_importance_reasoning llm))"
  "map_of (to_article_fields llm) ''sentiment'' = Some (of_str (l_sentiment llm))"
  "map_of (to_article_fields llm) ''sentiment_score'' = Some (of_float (l_sentiment_score llm))"
  "map_of (to_article_fields llm) ''sentiment_reasoning'' = Some (of_str (l_sentiment_reasoning llm))"
  "map_of (to_article_fields llm) ''ticker_sentiments'' =
     Some (if derived_ticker_sentiments llm = [] then PNone else PFloatDict (derived_ticker_sentiments llm))"
  "map_of (to_article_fields llm) ''ticker_sentiment_reasoning'' =
     Some (if derived_ticker_reasoning llm = [] then PNone else PStrDict (derived_ticker_reasoning llm))"
  "map_of (to_article_fields llm) ''tickers'' = Some (of_strlist (l_tickers llm))"
  "map_of (to_article_fields llm) ''primary_ticker'' = Some (of_str (l_primary_ticker llm))"
  "map_of (to_article_fields llm) ''primary_ticker_reasoning'' = Some (of_str (l_primary_ticker_reasoning llm))"
  "map_of (to_article_fields llm) ''sectors'' = Some (of_strlist (l_sectors llm))"
  "map_of (to_article_fields llm) ''sector_reasoning'' = Some (of_str (l_sector_reasoning llm))"
  "map_of (to_article_fields llm) ''industry'' = Some (of_strlist (l_industry llm))"
  "map_of (to_article_fields llm) ''industry_reasoning'' = Some (of_str (l_industry_reasoning llm))"
  "map_of (to_article_fields llm) ''keywords'' = Some (of_strlist (l_keywords_list llm))"
  "map_of (to_article_fields llm) ''keyword_map'' =
     Some (if derived_keyword_map llm = [] then PNone else PListDict (derived_keyword_map llm))"
  "map_of (to_article_fields llm) ''keyword_reasoning'' = Some (of_str (l_keyword_reasoning llm))"
  "map_of (to_article_fields llm) ''entities'' = Some (of_strlist (l_entities llm))"
  "map_of (to_article_fields llm) ''market_session'' = Some (of_str (l_market_session llm))"
  "map_of (to_article_fields llm) ''market_session_reasoning'' = Some (of_str (l_market_session_reasoning llm))"
  "map_of (to_article_fields llm) ''source'' = Some (of_str (l_source llm))"
  by (simp_all add: to_article_fields_explicit)

text \<open>
  C9: for every article and every enrichment result merged onto it, the merged article
  has the url, the title and the content of the original. No key that
  \<open>to_article_fields\<close> returns names one of these three fields.
\<close>

theorem merge_keeps_url_title_content:
  "url (model_copy_update a (to_article_fields llm)) = url a \<and>
   title (model_copy_update a (to_article_fields llm)) = title a \<and>
   content (model_copy_update a (to_article_fields llm)) = content a \<and>
   ''url'' \<notin> set (map fst (to_article_fields llm)) \<and>
   ''title'' \<notin> set (map fst (to_article_fields llm)) \<and>
   ''content'' \<notin> set (map fst (to_article_fields llm))"
  by (simp add: model_copy_explicit keys_to_article_fields)

text \<open>
  C2, as stated, fails: an article whose \<open>source\<close> is set, merged with an enrichment
  result whose \<open>source\<close> is null, ends with a null \<open>source\<close>. The dictionary of
  \<open>to_article_fields\<close> carries every key, null values included, and the copy writes
  every key.
\<close>

theorem enrichment_null_overwrites_counterexample:
  "getattr_article ((bare_article ''u'' ''t'' ''c'')\<lparr>source := Some ''Yahoo''\<rparr>) ''source'' =
     Some (PStr ''Yahoo'') \<and>
   map_of (to_article_fields null_summary) ''source'' = Some PNone \<and>
   getattr_article
     (model_copy_update ((bare_article ''u'' ''t'' ''c'')\<lparr>source := Some ''Yahoo''\<rparr>)
        (to_article_fields null_summary)) ''source'' = Some PNone"
proof -
  have n: "l_source null_summary = None" by (simp add: null_summary_def)
  show ?thesis
    by (simp add: getattr_article_fields map_of_to_article_fields model_copy_explicit n
          of_str_def)
qed

text \<open>
  C2, amended: for every field \<open>F\<close> of an article, a field that is absent from the
  enrichment result keeps its value, and a field that is a key of the enrichment
  result takes the result's value, a null value included.
\<close>
theorem enrichment_overlay_by_key:
  assumes "F \<in> set article_fields"
  shows "(F \<notin> set (map fst (to_article_fields llm)) \<longrightarrow>
           getattr_article (model_copy_update a (to_article_fields llm)) F = getattr_article a F) \<and>
         (F \<in> set (map fst (to_article_fields llm)) \<longrightarrow>
           getattr_article (model_copy_update a (to_article_fields llm)) F =
             map_of (to_article_fields llm) F)"
proof -
  have "F = ''url'' \<or>
      F = ''title'' \<or>
      F = ''content'' \<or>
      F = ''publish_date'' \<or>
      F = ''authors'' \<or>
      F = ''summary'' \<or>
      F = ''summary_short'' \<or>
      F = ''summary_bullets'' \<or>
      F = ''summary_extended'' \<or>
      F = ''event_type'' \<or>
      F = ''event_type_reasoning'' \<or>
      F = ''importance_score'' \<or>
      F = ''importance_reasoning'' \<or>
      F = ''sentiment'' \<or>
      F = ''sentiment_score'' \<or>
      F = ''sentiment_reasoning'' \<or>
      F = ''ticker_sentiments'' \<or>
      F = ''ticker_sentiment_reasoning'' \<or>
      F = ''tickers'' \<or>
      F = ''primary_ticker'' \<or>
      F = ''primary_ticker_reasoning'' \<or>
      F = ''sectors'' \<or>
      F = ''sector_reasoning'' \<or>
      F = ''industry'' \<or>
      F = ''industry_reasoning'' \<or>
      F = ''keywords'' \<or>
      F = ''keyword_map'' \<or>
      F = ''keyword_reasoning'' \<or>
      F = ''entities'' \<or>
      F = ''market_session'' \<or>
      F = ''market_session_reasoning'' \<or>
      F = ''source''"
    using assms by (simp add: article_fields_def)
  then show ?thesis
    by (elim disjE)
       (simp_all add: keys_to_article_fields getattr_article_fields map_of_to_article_fields
          model_copy_explicit of_floatdict_def of_strdict_def of_listdict_def)
qed

theorem enrichment_overlay_by_key_witness:
  "''source'' \<in> set article_fields \<and>
   ''source'' \<in> set (map fst (to_article_fields null_summary)) \<and>
   getattr_article
     (model_copy_update ((bare_article ''u'' ''t'' ''c'')\<lparr>source := Some ''Yahoo''\<rparr>)
        (to_article_fields null_summary)) ''source'' = Some PNone \<and>
   ''summary'' \<in> set article_fields \<and>
   ''summary'' \<notin> set (map fst (to_article_fields null_summary)) \<and>
   getattr_article
     (model_copy_update ((bare_article ''u'' ''t'' ''c'')\<lparr>summary := Some ''s''\<rparr>)
        (to_article_fields null_summary)) ''summary'' = Some (PStr ''s'')"
proof -
  have f1: "''source'' \<in> set article_fields" and f2: "''summary'' \<in> set article_fields"
    by (simp_all add: article_fields_def)
  have k1: "''source'' \<in> set (map fst (to_article_fields null_summary))"
    and k2: "''summary'' \<notin> set (map fst (to_article_fields null_summary))"
    by (simp_all add: keys_to_article_fields)
  have n: "l_source null_summary = None" by (simp add: null_summary_def)
  have "getattr_article
          (model_copy_update ((bare_article ''u'' ''t'' ''c'')\<lparr>source := Some ''Yahoo''\<rparr>)
             (to_article_fields null_summary)) ''source'' =
        map_of (to_article_fields null_summary) ''source''"
    using enrichment_overlay_by_key [OF f1] k1 by blast
  then have r1: "getattr_article
          (model_copy_update ((bare_article ''u'' ''t'' ''c'')\<lparr>source := Some ''Yahoo''\<rparr>)
             (to_article_fields null_summary)) ''source'' = Some PNone"
    by (simp add: map_of_to_article_fields n of_str_def)
  have "getattr_article
          (model_copy_update ((bare_article ''u'' ''t'' ''c'')\<lparr>summary := Some ''s''\<rparr>)
             (to_article_fields null_summary)) ''summary'' =
        getattr_article ((bare_article ''u'' ''t'' ''c'')\<lparr>summary := Some ''s''\<rparr>) ''summary''"
    using enrichment_overlay_by_key [OF f2] k2 by blast
  then have r2: "getattr_article
          (model_copy_update ((bare_article ''u'' ''t'' ''c'')\<lparr>summary := Some ''s''\<rparr>)
             (to_article_fields null_summary)) ''summary'' = Some (PStr ''s'')"
    by (simp add: getattr_article_fields of_str_def)
  from f1 f2 k1 k2 r1 r2 show ?thesis by blast
qed

section \<open>Properties of \<^verbatim>\<open>insert_many_articles\<close>\<close>

lemma bare_article_sel:
  "url (bare_article u t c) = u"
  "title (bare_article u t c) = t"
  "content (bare_article u t c) = c"
  "publish_date (bare_article u t c) = None"
  by (simp_all add: bare_article_def)

lemma alist_update_fresh: "k \<notin> set (map fst al) \<Longrightarrow> AList.update k v al = al @ [(k, v)]"
  by (induction al) auto

lemma batch_loop_keys:
  "distinct (map fst acc) \<Longrightarrow>
   distinct (map fst (articles_batch_loop articles rid now acc)) \<and>
   set (map fst (articles_batch_loop articles rid now acc)) = set (map fst acc) \<union> url ` set articles"
proof (induction articles arbitrary: acc)
  case Nil then show ?case by simp
next
  case (Cons a as)
  show ?case
  proof (cases "url a \<in> set (map fst acc)")
    case True
    then show ?thesis using Cons.IH [OF Cons.prems] by auto
  next
    case False
    let ?acc = "acc @ [(url a, \<lparr>d_fields = a, created_at = now, pipeline_run_id = rid\<rparr>)]"
    have d: "distinct (map fst ?acc)" using False Cons.prems by simp
    show ?thesis using False Cons.IH [OF d] by (auto simp add: alist_update_fresh)
  qed
qed

lemma batch_loop_map_of:
  "map_of (articles_batch_loop articles rid now acc) u =
     (case map_of acc u of
        Some d \<Rightarrow> Some d
      | None \<Rightarrow> map_option (\<lambda>a. \<lparr>d_fields = a, created_at = now, pipeline_run_id = rid\<rparr>)
                  (find (\<lambda>a. url a = u) articles))"
proof (induction articles arbitrary: acc)
  case Nil then show ?case by (simp split: option.splits)
next
  case (Cons a as)
  show ?case
  proof (cases "url a \<in> set (map fst acc)")
    case True
    then have "map_of acc (url a) \<noteq> None" by (simp add: map_of_eq_None_iff)
    then show ?thesis using True Cons.IH [of acc] by (auto split: option.splits)
  next
    case False
    then have n: "map_of acc (url a) = None" by (simp add: map_of_eq_None_iff)
    show ?thesis using False n Cons.IH [of "acc @ [(url a, \<lparr>d_fields = a, created_at = now, pipeline_run_id = rid\<rparr>)]"]
      by (auto simp add: alist_update_fresh map_add_def split: option.splits)
  qed
qed


lemma bulk_loop_spec:
  "distinct (map fst batch) \<Longrightarrow>
   \<exists>new ups'. bulk_loop (operations_of batch) i coll ups = (coll @ new, ups @ ups') \<and>
      urls_of new = filter (\<lambda>u. u \<notin> set (urls_of coll)) (map fst batch) \<and>
      length ups' = length new"
proof (induction batch arbitrary: i coll ups)
  case Nil
  then show ?case by (simp add: operations_of_def urls_of_def)
next
  case (Cons kv rest)
  obtain u d where kv: "kv = (u, d)" by (cases kv)
  have dr: "distinct (map fst rest)" and ur: "u \<notin> set (map fst rest)"
    using Cons.prems kv by auto
  have ops: "operations_of (kv # rest) = UpdateOne u d # operations_of rest"
    by (simp add: operations_of_def kv)
  show ?case
  proof (cases "u \<in> set (urls_of coll)")
    case True
    from Cons.IH [OF dr, of "Suc i" coll ups] obtain new ups' where
      h: "bulk_loop (operations_of rest) (Suc i) coll ups = (coll @ new, ups @ ups')"
         "urls_of new = filter (\<lambda>u. u \<notin> set (urls_of coll)) (map fst rest)"
         "length ups' = length new" by blast
    have "bulk_loop (operations_of (kv # rest)) i coll ups = (coll @ new, ups @ ups')"
      using True h(1) by (simp add: ops urls_of_def)
    moreover have "urls_of new = filter (\<lambda>u. u \<notin> set (urls_of coll)) (map fst (kv # rest))"
      using True h(2) by (simp add: kv)
    ultimately show ?thesis using h(3) by blast
  next
    case False
    let ?x = "\<lparr>oid = new_oid coll, stored_doc = d\<lparr>d_fields := (d_fields d)\<lparr>url := u\<rparr>\<rparr>\<rparr>"
    have ux: "stored_url ?x = u" by (simp add: stored_url_def)
    from Cons.IH [OF dr, of "Suc i" "coll @ [?x]" "ups @ [(i, new_oid coll)]"] obtain new ups' where
      h: "bulk_loop (operations_of rest) (Suc i) (coll @ [?x]) (ups @ [(i, new_oid coll)]) =
            ((coll @ [?x]) @ new, (ups @ [(i, new_oid coll)]) @ ups')"
         "urls_of new = filter (\<lambda>v. v \<notin> set (urls_of (coll @ [?x]))) (map fst rest)"
         "length ups' = length new" by blast
    have f: "filter (\<lambda>v. v \<notin> set (urls_of (coll @ [?x]))) (map fst rest) =
             filter (\<lambda>v. v \<notin> set (urls_of coll)) (map fst rest)"
      using ur by (intro filter_cong) (auto simp add: urls_of_def ux)
    have "bulk_loop (operations_of (kv # rest)) i coll ups =
            (coll @ (?x # new), ups @ ((i, new_oid coll) # ups'))"
      using False h(1) by (simp add: ops urls_of_def)
    moreover have "urls_of (?x # new) = filter (\<lambda>u. u \<notin> set (urls_of coll)) (map fst (kv # rest))"
      using False h(2) f ux by (simp add: kv urls_of_def)
    moreover have "length ((i, new_oid coll) # ups') = length (?x # new)"
      using h(3) by simp
    ultimately show ?thesis by blast
  qed
qed

lemma batch_loop_nonempty: "articles_batch_loop articles rid now [] = [] \<longleftrightarrow> articles = []"
proof -
  have "set (map fst (articles_batch_loop articles rid now [])) = url ` set articles"
    using batch_loop_keys [of "[]" articles rid now] by simp
  then show ?thesis by (cases articles) auto
qed

text \<open>
  C3: for every batch, duplicates included, \<open>insert_many_articles\<close> inserts each url of
  the batch at most once (the new documents have distinct urls, exactly the urls of the
  batch that the collection did not hold), and the counters satisfy
  \<open>inserted_count + existing_count = total_unique_urls\<close>, the number of distinct urls of
  the batch. Only the empty batch returns no counters: the driver rejects an empty
  list of operations and the call raises.
\<close>

theorem insert_many_articles_dedup:
  "case insert_many_articles coll articles run_id now of
     Inl e \<Rightarrow> articles = []
   | Inr (res, coll') \<Rightarrow>
       articles \<noteq> [] \<and>
       inserted_count res + existing_count res = total_unique_urls res \<and>
       total_unique_urls res = int (card (url ` set articles)) \<and>
       (\<exists>new. coll' = coll @ new \<and> distinct (urls_of new) \<and>
              set (urls_of new) = url ` set articles - set (urls_of coll) \<and>
              inserted_count res = int (length new)) \<and>
       existing_count res = int (card (url ` set articles \<inter> set (urls_of coll)))"
proof (cases "articles = []")
  case True
  then show ?thesis
    by (simp add: insert_many_articles_def operations_of_def bulk_write_def)
next
  case False
  let ?b = "articles_batch_loop articles run_id now []"
  have dk: "distinct (map fst ?b)" and sk: "set (map fst ?b) = url ` set articles"
    using batch_loop_keys [of "[]" articles run_id now] by simp_all
  have ne: "operations_of ?b \<noteq> []"
    using False batch_loop_nonempty [of articles run_id now] by (simp add: operations_of_def)
  from bulk_loop_spec [OF dk, of 0 coll "[]"] obtain new ups' where
    h: "bulk_loop (operations_of ?b) 0 coll [] = (coll @ new, ups')"
       "urls_of new = filter (\<lambda>u. u \<notin> set (urls_of coll)) (map fst ?b)"
       "length ups' = length new" by auto
  let ?res = "\<lparr>inserted_count = int (length ups'),
              existing_count = int (length (map fst ?b)) - int (length ups'),
              total_unique_urls = int (length (map fst ?b)),
              inserted_ids = map (\<lambda>p. (map fst ?b ! fst p, snd p)) ups'\<rparr>"
  have r: "insert_many_articles coll articles run_id now = Inr (?res, coll @ new)"
    using ne h(1) by (simp add: insert_many_articles_def bulk_write_def Let_def)
  have c: "length (map fst ?b) = card (url ` set articles)"
    using distinct_card [OF dk] sk by simp
  have dn: "distinct (urls_of new)" using dk h(2) by simp
  have sn: "set (urls_of new) = url ` set articles - set (urls_of coll)"
    using h(2) sk by auto
  have "length (filter (\<lambda>u. u \<in> set (urls_of coll)) (map fst ?b)) + length (urls_of new) =
        length (map fst ?b)"
    unfolding h(2) using sum_length_filter_compl [of "\<lambda>u. u \<in> set (urls_of coll)" "map fst ?b"]
    by simp
  moreover have "length (filter (\<lambda>u. u \<in> set (urls_of coll)) (map fst ?b)) =
        card (url ` set articles \<inter> set (urls_of coll))"
    using distinct_length_filter [OF dk, of "\<lambda>u. u \<in> set (urls_of coll)"] sk
    by (simp add: Int_commute)
  moreover have "length (urls_of new) = length new" by (simp add: urls_of_def)
  ultimately have e: "int (length (map fst ?b)) - int (length ups') =
        int (card (url ` set articles \<inter> set (urls_of coll)))"
    using h(3) by linarith
  show ?thesis
    unfolding r using False c dn sn e h(3) by auto
qed

lemma filter_key_distinct:
  "distinct (map fst al) \<Longrightarrow> map_of al k = Some v \<Longrightarrow> filter (\<lambda>kv. fst kv = k) al = [(k, v)]"
proof (induction al)
  case Nil then show ?case by simp
next
  case (Cons p al)
  show ?case
  proof (cases "fst p = k")
    case True
    then have "k \<notin> fst ` set al" using Cons.prems(1) by auto
    then have "filter (\<lambda>kv. fst kv = k) al = []" by (auto simp add: filter_empty_conv)
    then show ?thesis using True Cons.prems(2) by (cases p) auto
  next
    case False
    then show ?thesis using Cons by (cases p) auto
  qed
qed

lemma bulk_loop_docs:
  "distinct (map fst batch) \<Longrightarrow>
   \<exists>new ups'. bulk_loop (operations_of batch) i coll ups = (coll @ new, ups @ ups') \<and>
      map (\<lambda>s. (stored_url s, stored_doc s)) new =
        map (\<lambda>kv. (fst kv, (snd kv)\<lparr>d_fields := (d_fields (snd kv))\<lparr>url := fst kv\<rparr>\<rparr>))
          (filter (\<lambda>kv. fst kv \<notin> set (urls_of coll)) batch)"
proof (induction batch arbitrary: i coll ups)
  case Nil
  then show ?case by (simp add: operations_of_def)
next
  case (Cons kv rest)
  obtain u d where kv: "kv = (u, d)" by (cases kv)
  have dr: "distinct (map fst rest)" and ur: "u \<notin> set (map fst rest)"
    using Cons.prems kv by auto
  have ops: "operations_of (kv # rest) = UpdateOne u d # operations_of rest"
    by (simp add: operations_of_def kv)
  let ?g = "\<lambda>kv. (fst kv, (snd kv)\<lparr>d_fields := (d_fields (snd kv))\<lparr>url := fst kv\<rparr>\<rparr>)"
  show ?case
  proof (cases "u \<in> set (urls_of coll)")
    case True
    from Cons.IH [OF dr, of "Suc i" coll ups] obtain new ups' where
      h: "bulk_loop (operations_of rest) (Suc i) coll ups = (coll @ new, ups @ ups')"
         "map (\<lambda>s. (stored_url s, stored_doc s)) new =
            map ?g (filter (\<lambda>kv. fst kv \<notin> set (urls_of coll)) rest)" by blast
    have "bulk_loop (operations_of (kv # rest)) i coll ups = (coll @ new, ups @ ups')"
      using True h(1) by (simp add: ops urls_of_def)
    moreover have "map (\<lambda>s. (stored_url s, stored_doc s)) new =
            map ?g (filter (\<lambda>kv. fst kv \<notin> set (urls_of coll)) (kv # rest))"
      using True h(2) by (simp add: kv)
    ultimately show ?thesis by blast
  next
    case False
    let ?x = "\<lparr>oid = new_oid coll, stored_doc = d\<lparr>d_fields := (d_fields d)\<lparr>url := u\<rparr>\<rparr>\<rparr>"
    have ux: "stored_url ?x = u" by (simp add: stored_url_def)
    from Cons.IH [OF dr, of "Suc i" "coll @ [?x]" "ups @ [(i, new_oid coll)]"] obtain new ups' where
      h: "bulk_loop (operations_of rest) (Suc i) (coll @ [?x]) (ups @ [(i, new_oid coll)]) =
            ((coll @ [?x]) @ new, (ups @ [(i, new_oid coll)]) @ ups')"
         "map (\<lambda>s. (stored_url s, stored_doc s)) new =
            map ?g (filter (\<lambda>kv. fst kv \<notin> set (urls_of (coll @ [?x]))) rest)" by blast
    have f: "filter (\<lambda>kv. fst kv \<notin> set (urls_of (coll @ [?x]))) rest =
             filter (\<lambda>kv. fst kv \<notin> set (urls_of coll)) rest"
      using ur by (intro filter_cong) (auto simp add: urls_of_def ux)
    have "bulk_loop (operations_of (kv # rest)) i coll ups =
            (coll @ (?x # new), ups @ ((i, new_oid coll) # ups'))"
      using False h(1) by (simp add: ops urls_of_def)
    moreover have "map (\<lambda>s. (stored_url s, stored_doc s)) (?x # new) =
            map ?g (filter (\<lambda>kv. fst kv \<notin> set (urls_of coll)) (kv # rest))"
      using False h(2) f ux by (simp add: kv)
    ultimately show ?thesis by blast
  qed
qed

text \<open>
  C10: when several articles of the batch bear the same url, the one operation built
  for that url carries the document of the first of them, and these operations are
  what \<open>insert_many_articles\<close> submits to the store: afterwards the store holds, for a
  url it did not hold before, exactly that document, and for a url it already held
  what it held before. The later duplicates are skipped.
\<close>

theorem first_article_wins_in_batch:
  assumes "find (\<lambda>a. url a = u) articles = Some a"
  shows "filter (\<lambda>w. op_url w = u) (operations_of (articles_batch_loop articles run_id now [])) =
           [UpdateOne u \<lparr>d_fields = a, created_at = now, pipeline_run_id = run_id\<rparr>] \<and>
         (\<exists>res bres coll'.
            insert_many_articles coll articles run_id now = Inr (res, coll') \<and>
            bulk_write coll (operations_of (articles_batch_loop articles run_id now [])) =
              Inr (bres, coll') \<and>
            (if u \<in> set (urls_of coll)
             then filter (\<lambda>s. stored_url s = u) coll' = filter (\<lambda>s. stored_url s = u) coll
             else map stored_doc (filter (\<lambda>s. stored_url s = u) coll') =
                    [\<lparr>d_fields = a, created_at = now, pipeline_run_id = run_id\<rparr>]))"
proof -
  let ?b = "articles_batch_loop articles run_id now []"
  let ?D = "\<lparr>d_fields = a, created_at = now, pipeline_run_id = run_id\<rparr>"
  let ?g = "\<lambda>kv. (fst kv, (snd kv)\<lparr>d_fields := (d_fields (snd kv))\<lparr>url := fst kv\<rparr>\<rparr>)"
  let ?P = "\<lambda>kv. fst kv \<notin> set (urls_of coll)"
  have ua: "url a = u" and na: "articles \<noteq> []"
    using assms by (auto simp add: find_Some_iff)
  have dk: "distinct (map fst ?b)"
    using batch_loop_keys [of "[]" articles run_id now] by simp
  have m: "map_of ?b u = Some ?D"
    using assms by (simp add: batch_loop_map_of)
  have fk: "filter (\<lambda>kv. fst kv = u) ?b = [(u, ?D)]"
    using filter_key_distinct [OF dk m] .
  have "filter (\<lambda>w. op_url w = u) (operations_of ?b) =
        operations_of (filter (\<lambda>kv. fst kv = u) ?b)"
    by (simp add: operations_of_def filter_map comp_def)
  then have ops: "filter (\<lambda>w. op_url w = u) (operations_of ?b) = [UpdateOne u ?D]"
    by (simp add: fk operations_of_def)
  have ne: "operations_of ?b \<noteq> []"
    using na batch_loop_nonempty [of articles run_id now] by (simp add: operations_of_def)
  from bulk_loop_docs [OF dk, of 0 coll "[]"] obtain new ups' where
    h: "bulk_loop (operations_of ?b) 0 coll [] = (coll @ new, ups')"
       "map (\<lambda>s. (stored_url s, stored_doc s)) new = map ?g (filter ?P ?b)" by auto
  let ?bres = "\<lparr>upserted_count = int (length ups'), upserted_ids = ups'\<rparr>"
  let ?res = "\<lparr>inserted_count = int (length ups'),
              existing_count = int (length (map fst ?b)) - int (length ups'),
              total_unique_urls = int (length (map fst ?b)),
              inserted_ids = map (\<lambda>p. (map fst ?b ! fst p, snd p)) ups'\<rparr>"
  have bw: "bulk_write coll (operations_of ?b) = Inr (?bres, coll @ new)"
    using ne h(1) by (simp add: bulk_write_def)
  have r: "insert_many_articles coll articles run_id now = Inr (?res, coll @ new)"
    using bw by (simp add: insert_many_articles_def Let_def)
  have e1: "map stored_doc (filter (\<lambda>s. stored_url s = u) new) =
        map snd (filter (\<lambda>p. fst p = u) (map (\<lambda>s. (stored_url s, stored_doc s)) new))"
    by (simp add: filter_map comp_def)
  have e2: "filter (\<lambda>p. fst p = u) (map ?g xs) = map ?g (filter (\<lambda>kv. fst kv = u) xs)" for xs
    by (induction xs) auto
  have e3: "filter (\<lambda>kv. fst kv = u) (filter ?P xs) = filter ?P (filter (\<lambda>kv. fst kv = u) xs)"
    for xs by (induction xs) auto
  have e4: "map snd (map ?g (filter ?P [(u, ?D)])) =
        (if u \<in> set (urls_of coll) then [] else [?D])"
    by (simp add: ua [symmetric])
  have n: "map stored_doc (filter (\<lambda>s. stored_url s = u) new) =
        (if u \<in> set (urls_of coll) then [] else [?D])"
    unfolding e1 h(2) e2 e3 fk by (rule e4)
  have st: "if u \<in> set (urls_of coll)
        then filter (\<lambda>s. stored_url s = u) (coll @ new) = filter (\<lambda>s. stored_url s = u) coll
        else map stored_doc (filter (\<lambda>s. stored_url s = u) (coll @ new)) = [?D]"
  proof (cases "u \<in> set (urls_of coll)")
    case True
    then have "filter (\<lambda>s. stored_url s = u) new = []" using n by simp
    then show ?thesis using True by simp
  next
    case False
    then have "filter (\<lambda>s. stored_url s = u) coll = []"
      by (auto simp add: filter_empty_conv urls_of_def)
    then show ?thesis using False n by simp
  qed
  from ops r bw st show ?thesis by blast
qed

text \<open>
  C4: inserting the same single-article batch twice, the url not being stored before
  the first call. The first call reports one insertion and no existing url, the second
  none and one, and the second call leaves the collection as the first call left it,
  whatever its time stamp and run identifier.
\<close>

theorem insert_twice_idempotent:
  assumes "url a \<notin> set (urls_of coll)"
  shows "\<exists>res1 coll1 res2.
           insert_many_articles coll [a] run1 now1 = Inr (res1, coll1) \<and>
           inserted_count res1 = 1 \<and> existing_count res1 = 0 \<and>
           coll1 = coll @ [\<lparr>oid = new_oid coll,
                    stored_doc = \<lparr>d_fields = a, created_at = now1, pipeline_run_id = run1\<rparr>\<rparr>] \<and>
           insert_many_articles coll1 [a] run2 now2 = Inr (res2, coll1) \<and>
           inserted_count res2 = 0 \<and> existing_count res2 = 1"
  using assms
  by (simp add: insert_many_articles_def operations_of_def bulk_write_def urls_of_def
        stored_url_def Let_def)


theorem insert_many_articles_dedup_witness:
  "\<exists>res coll'.
     insert_many_articles [] [bare_article ''u1'' ''first'' ''c'', bare_article ''u1'' ''second'' ''c'',
        bare_article ''u2'' ''t'' ''c''] None 0 = Inr (res, coll') \<and>
     inserted_count res + existing_count res = total_unique_urls res \<and>
     total_unique_urls res = 2"
proof -
  let ?as = "[bare_article ''u1'' ''first'' ''c'', bare_article ''u1'' ''second'' ''c'',
        bare_article ''u2'' ''t'' ''c'']"
  have c: "card (url ` set ?as) = 2" by (simp add: bare_article_sel)
  show ?thesis
    using insert_many_articles_dedup [where coll = "[]" and articles = ?as and run_id = None and now = 0] c
    by (cases "insert_many_articles [] ?as None 0") auto
qed

theorem first_article_wins_in_batch_witness:
  "find (\<lambda>a. url a = ''u1'')
     [bare_article ''u1'' ''first'' ''c'', bare_article ''u1'' ''second'' ''c''] =
     Some (bare_article ''u1'' ''first'' ''c'') \<and>
   filter (\<lambda>w. op_url w = ''u1'')
     (operations_of (articles_batch_loop
        [bare_article ''u1'' ''first'' ''c'', bare_article ''u1'' ''second'' ''c''] None 0 [])) =
     [UpdateOne ''u1'' \<lparr>d_fields = bare_article ''u1'' ''first'' ''c'', created_at = 0,
        pipeline_run_id = None\<rparr>] \<and>
   (\<exists>res coll'.
      insert_many_articles []
        [bare_article ''u1'' ''first'' ''c'', bare_article ''u1'' ''second'' ''c''] None 0 =
        Inr (res, coll') \<and>
      map stored_doc (filter (\<lambda>s. stored_url s = ''u1'') coll') =
        [\<lparr>d_fields = bare_article ''u1'' ''first'' ''c'', created_at = 0,
          pipeline_run_id = None\<rparr>])"
proof -
  have f: "find (\<lambda>a. url a = ''u1'')
     [bare_article ''u1'' ''first'' ''c'', bare_article ''u1'' ''second'' ''c''] =
     Some (bare_article ''u1'' ''first'' ''c'')" by (simp add: bare_article_sel)
  have e: "''u1'' \<notin> set (urls_of [])" by (simp add: urls_of_def)
  show ?thesis
    using f e first_article_wins_in_batch [OF f, where run_id = None and now = 0 and coll = "[]"]
    by auto
qed

theorem insert_twice_idempotent_witness:
  "url (bare_article ''u'' ''t'' ''c'') \<notin> set (urls_of []) \<and>
   (\<exists>res1 coll1 res2.
      insert_many_articles [] [bare_article ''u'' ''t'' ''c''] None 1 = Inr (res1, coll1) \<and>
      inserted_count res1 = 1 \<and> existing_count res1 = 0 \<and>
      coll1 = [] @ [\<lparr>oid = new_oid [],
               stored_doc = \<lparr>d_fields = bare_article ''u'' ''t'' ''c'', created_at = 1,
                 pipeline_run_id = None\<rparr>\<rparr>] \<and>
      insert_many_articles coll1 [bare_article ''u'' ''t'' ''c''] None 2 = Inr (res2, coll1) \<and>
      inserted_count res2 = 0 \<and> existing_count res2 = 1)"
proof -
  have h: "url (bare_article ''u'' ''t'' ''c'') \<notin> set (urls_of [])" by (simp add: urls_of_def)
  show ?thesis using h insert_twice_idempotent [OF h, where ?run1.0 = None and ?now1.0 = 1 and ?run2.0 = None and ?now2.0 = 2] by blast
qed

section \<open>Properties of the fetch coordinator\<close>

lemma has_timestamp_key: "has_timestamp a \<longleftrightarrow> publish_key a \<noteq> []"
  by (simp add: has_timestamp_def publish_key_def split: option.splits)

lemma sorted_reverse_descending:
  "sorted_wrt (\<lambda>a b. key b \<le> key a) (sorted_reverse key xs)"
proof -
  have "sorted (map key (sort_key key (rev xs)))" by simp
  then have "sorted_wrt (\<lambda>a b. key a \<le> key b) (sort_key key (rev xs))"
    by (simp add: sorted_map)
  then show ?thesis by (simp add: sorted_reverse_def sorted_wrt_rev)
qed

lemma mset_sorted_reverse: "mset (sorted_reverse key xs) = mset xs"
  by (simp add: sorted_reverse_def)

lemma descending_empty_keys_last:
  "sorted_wrt (\<lambda>a b. key b \<le> key a) out \<Longrightarrow>
   out = filter (\<lambda>a. key a \<noteq> ([] :: string)) out @ filter (\<lambda>a. \<not> key a \<noteq> []) out"
proof (induction out)
  case Nil then show ?case by simp
next
  case (Cons x xs)
  show ?case
  proof (cases "key x = []")
    case True
    then have "\<forall>y \<in> set xs. key y = []" using Cons.prems by auto
    then have "filter (\<lambda>a. key a \<noteq> []) xs = []" and "filter (\<lambda>a. \<not> key a \<noteq> []) xs = xs"
      by (simp_all add: filter_empty_conv filter_id_conv)
    then show ?thesis using True by simp
  next
    case False
    then show ?thesis using Cons by simp
  qed
qed

text \<open>
  C7: whenever the fetch returns, in either mode, its output is in descending order of
  the key \<^verbatim>\<open>publish_date or ""\<close>, and the articles without a timestamp (the key is the
  empty string, the least string) come after all the articles with one.
\<close>

theorem fetch_output_sorted_descending:
  assumes "returned (fetch_latest_news_articles asynchronous active_scrapers completed) = Inr out"
  shows "sorted_wrt (\<lambda>a b. publish_key b \<le> publish_key a) out \<and>
         out = filter has_timestamp out @ filter (\<lambda>a. \<not> has_timestamp a) out"
proof -
  obtain xs where o: "out = sorted_reverse publish_key xs"
    using assms
    by (auto simp add: fetch_latest_news_articles_def split: if_splits prod.splits sum.splits)
  have d: "sorted_wrt (\<lambda>a b. publish_key b \<le> publish_key a) out"
    unfolding o by (rule sorted_reverse_descending)
  have "out = filter (\<lambda>a. publish_key a \<noteq> []) out @ filter (\<lambda>a. \<not> publish_key a \<noteq> []) out"
    using d by (rule descending_empty_keys_last)
  then have "out = filter has_timestamp out @ filter (\<lambda>a. \<not> has_timestamp a) out"
    by (simp add: has_timestamp_key [abs_def])
  with d show ?thesis by blast
qed

lemma collect_completed_mset:
  "mset (collect_completed cs acc) = mset acc + mset (concat (map scraped cs))"
  by (induction cs arbitrary: acc) (auto simp add: scraped_def split: scrape_outcome.splits)

lemma scraped_succeeded: "concat (map scraped (filter succeeded cs)) = concat (map scraped cs)"
  by (induction cs) (auto simp add: scraped_def succeeded_def split: scrape_outcome.splits)

lemma mset_concat_perm:
  assumes "mset xs = mset ys"
  shows "mset (concat (map f xs)) = mset (concat (map f ys))"
proof -
  have "mset (concat (map f zs)) = sum_mset (image_mset (\<lambda>z. mset (f z)) (mset zs))" for zs
    by (induction zs) simp_all
  then show ?thesis using assms by simp
qed

text \<open>
  C5: in concurrent mode, whatever the order in which the futures complete, the fetch
  does not raise and returns, as a multiset, the articles of the adapters that did not
  raise.
\<close>

theorem fetch_concurrent_partial_failure:
  assumes "mset completed = mset active_scrapers"
  shows "\<exists>out. returned (fetch_latest_news_articles True active_scrapers completed) = Inr out \<and>
           mset out = mset (concat (map scraped (filter succeeded active_scrapers)))"
proof -
  let ?out = "sorted_reverse publish_key (collect_completed completed [])"
  have r: "returned (fetch_latest_news_articles True active_scrapers completed) = Inr ?out"
    by (simp add: fetch_latest_news_articles_def)
  have "mset ?out = mset (concat (map scraped completed))"
    by (simp add: mset_sorted_reverse collect_completed_mset)
  also have "\<dots> = mset (concat (map scraped active_scrapers))"
    using assms by (rule mset_concat_perm)
  finally have "mset ?out = mset (concat (map scraped (filter succeeded active_scrapers)))"
    by (simp add: scraped_succeeded)
  with r show ?thesis by blast
qed

text \<open>
  C6 does not hold of the code. The sequential branch calls the adapters in list order,
  but it has no handler of its own, unlike the concurrent branch: with a first adapter
  that raises and a second that would return one article, only the first is called
  and the fetch itself raises.
\<close>

theorem sequential_fetch_stops_at_first_error:
  "fetch_latest_news_articles False
     [\<lparr>scraper_name = ''A'', scrape = Raises\<rparr>,
      \<lparr>scraper_name = ''B'', scrape = Returns [bare_article ''u'' ''t'' ''c'']\<rparr>] completed =
   \<lparr>called = [''A''], returned = Inl (ScraperError ''A'')\<rparr>"
  by (simp add: fetch_latest_news_articles_def)


theorem fetch_output_sorted_descending_witness:
  "returned (fetch_latest_news_articles True
     [\<lparr>scraper_name = ''A'', scrape = Returns [(bare_article ''u1'' ''t'' ''c'')\<lparr>publish_date := Some ''a''\<rparr>,
         bare_article ''u2'' ''t'' ''c'']\<rparr>,
      \<lparr>scraper_name = ''B'', scrape = Returns [(bare_article ''u3'' ''t'' ''c'')\<lparr>publish_date := Some ''b''\<rparr>]\<rparr>]
     [\<lparr>scraper_name = ''A'', scrape = Returns [(bare_article ''u1'' ''t'' ''c'')\<lparr>publish_date := Some ''a''\<rparr>,
         bare_article ''u2'' ''t'' ''c'']\<rparr>,
      \<lparr>scraper_name = ''B'', scrape = Returns [(bare_article ''u3'' ''t'' ''c'')\<lparr>publish_date := Some ''b''\<rparr>]\<rparr>]) =
   Inr [(bare_article ''u3'' ''t'' ''c'')\<lparr>publish_date := Some ''b''\<rparr>,
        (bare_article ''u1'' ''t'' ''c'')\<lparr>publish_date := Some ''a''\<rparr>,
        bare_article ''u2'' ''t'' ''c''] \<and>
   filter has_timestamp
     [(bare_article ''u3'' ''t'' ''c'')\<lparr>publish_date := Some ''b''\<rparr>,
      (bare_article ''u1'' ''t'' ''c'')\<lparr>publish_date := Some ''a''\<rparr>,
      bare_article ''u2'' ''t'' ''c''] =
     [(bare_article ''u3'' ''t'' ''c'')\<lparr>publish_date := Some ''b''\<rparr>,
      (bare_article ''u1'' ''t'' ''c'')\<lparr>publish_date := Some ''a''\<rparr>] \<and>
   filter (\<lambda>a. \<not> has_timestamp a)
     [(bare_article ''u3'' ''t'' ''c'')\<lparr>publish_date := Some ''b''\<rparr>,
      (bare_article ''u1'' ''t'' ''c'')\<lparr>publish_date := Some ''a''\<rparr>,
      bare_article ''u2'' ''t'' ''c''] = [bare_article ''u2'' ''t'' ''c'']"
proof -
  let ?a1 = "(bare_article ''u1'' ''t'' ''c'')\<lparr>publish_date := Some ''a''\<rparr>"
  let ?a2 = "bare_article ''u2'' ''t'' ''c''"
  let ?a3 = "(bare_article ''u3'' ''t'' ''c'')\<lparr>publish_date := Some ''b''\<rparr>"
  let ?ss = "[\<lparr>scraper_name = ''A'', scrape = Returns [?a1, ?a2]\<rparr>,
              \<lparr>scraper_name = ''B'', scrape = Returns [?a3]\<rparr>]"
  have k: "publish_key ?a1 = ''a''" "publish_key ?a2 = []" "publish_key ?a3 = ''b''"
    by (simp_all add: publish_key_def bare_article_sel)
  have r: "returned (fetch_latest_news_articles True ?ss ?ss) = Inr [?a3, ?a1, ?a2]"
    by (simp add: fetch_latest_news_articles_def sorted_reverse_def k)
  have t: "has_timestamp ?a1" "\<not> has_timestamp ?a2" "has_timestamp ?a3"
    by (simp_all add: has_timestamp_def bare_article_sel)
  from fetch_output_sorted_descending [OF r]
  have "[?a3, ?a1, ?a2] = filter has_timestamp [?a3, ?a1, ?a2] @
          filter (\<lambda>a. \<not> has_timestamp a) [?a3, ?a1, ?a2]" by blast
  then show ?thesis using r t by simp
qed

theorem fetch_concurrent_partial_failure_witness:
  "mset [\<lparr>scraper_name = ''C'', scrape = Returns [bare_article ''u3'' ''t'' ''c'',
             bare_article ''u4'' ''t'' ''c'', bare_article ''u5'' ''t'' ''c'']\<rparr>,
         \<lparr>scraper_name = ''A'', scrape = Returns [bare_article ''u1'' ''t'' ''c'',
             bare_article ''u2'' ''t'' ''c'']\<rparr>,
         \<lparr>scraper_name = ''B'', scrape = Raises\<rparr>] =
   mset [\<lparr>scraper_name = ''A'', scrape = Returns [bare_article ''u1'' ''t'' ''c'',
             bare_article ''u2'' ''t'' ''c'']\<rparr>,
         \<lparr>scraper_name = ''B'', scrape = Raises\<rparr>,
         \<lparr>scraper_name = ''C'', scrape = Returns [bare_article ''u3'' ''t'' ''c'',
             bare_article ''u4'' ''t'' ''c'', bare_article ''u5'' ''t'' ''c'']\<rparr>] \<and>
   (\<exists>out. returned (fetch_latest_news_articles True
        [\<lparr>scraper_name = ''A'', scrape = Returns [bare_article ''u1'' ''t'' ''c'',
             bare_article ''u2'' ''t'' ''c'']\<rparr>,
         \<lparr>scraper_name = ''B'', scrape = Raises\<rparr>,
         \<lparr>scraper_name = ''C'', scrape = Returns [bare_article ''u3'' ''t'' ''c'',
             bare_article ''u4'' ''t'' ''c'', bare_article ''u5'' ''t'' ''c'']\<rparr>]
        [\<lparr>scraper_name = ''C'', scrape = Returns [bare_article ''u3'' ''t'' ''c'',
             bare_article ''u4'' ''t'' ''c'', bare_article ''u5'' ''t'' ''c'']\<rparr>,
         \<lparr>scraper_name = ''A'', scrape = Returns [bare_article ''u1'' ''t'' ''c'',
             bare_article ''u2'' ''t'' ''c'']\<rparr>,
         \<lparr>scraper_name = ''B'', scrape = Raises\<rparr>]) = Inr out \<and>
      length out = 5)"
proof -
  let ?A = "\<lparr>scraper_name = ''A'', scrape = Returns [bare_article ''u1'' ''t'' ''c'',
             bare_article ''u2'' ''t'' ''c'']\<rparr>"
  let ?B = "\<lparr>scraper_name = ''B'', scrape = Raises\<rparr>"
  let ?C = "\<lparr>scraper_name = ''C'', scrape = Returns [bare_article ''u3'' ''t'' ''c'',
             bare_article ''u4'' ''t'' ''c'', bare_article ''u5'' ''t'' ''c'']\<rparr>"
  have p: "mset [?C, ?A, ?B] = mset [?A, ?B, ?C]" by simp
  from fetch_concurrent_partial_failure [OF p] obtain out where
    o: "returned (fetch_latest_news_articles True [?A, ?B, ?C] [?C, ?A, ?B]) = Inr out"
       "mset out = mset (concat (map scraped (filter succeeded [?A, ?B, ?C])))" by blast
  have "size (mset out) = 5"
    unfolding o(2) by (simp add: scraped_def succeeded_def)
  then have "length out = 5" by simp
  with p o(1) show ?thesis by blast
qed

section \<open>Properties of the backfill\<close>

lemma to_article_fields_nonempty: "to_article_fields llm \<noteq> []"
  by (simp add: to_article_fields_def Let_def)















lemma cursor_of_None: "cursor_of a = None"
  by (simp add: cursor_of_def getattr_oid_def getattr_article_def)

lemma get_articles_batch_nonempty:
  assumes "coll \<noteq> []"
  shows "get_articles_batch coll limit None \<noteq> []"
proof -
  have s: "sort_key oid coll \<noteq> []"
    using assms by (metis length_sort length_0_conv)
  show ?thesis
  proof (cases "limit = 0")
    case True
    then show ?thesis using s by (simp add: get_articles_batch_def)
  next
    case False
    then have "take limit (sort_key oid coll) \<noteq> []" using s by (simp add: take_eq_Nil)
    then show ?thesis using False by (simp add: get_articles_batch_def)
  qed
qed

lemma upsert_article_nonempty: "coll \<noteq> [] \<Longrightarrow> upsert_article now coll a \<noteq> []"
  by simp

lemma upsert_many_articles_nonempty:
  "coll \<noteq> [] \<Longrightarrow> upsert_many_articles now coll as \<noteq> []"
  unfolding upsert_many_articles_def
proof (induction as arbitrary: coll)
  case Nil then show ?case by simp
next
  case (Cons a as)
  have "upsert_article now coll a \<noteq> []" using Cons.prems by (rule upsert_article_nonempty)
  then show ?case using Cons.IH by simp
qed

lemma backfill_loop_never_returns:
  assumes up: "\<And>c as. c \<noteq> [] \<Longrightarrow> upsert c as \<noteq> []"
  shows "db s \<noteq> [] \<Longrightarrow> last_id s = None \<Longrightarrow>
         backfill_loop fuel upsert client completion batch_size None s = None"
proof (induction fuel arbitrary: s)
  case 0
  then show ?case by simp
next
  case (Suc fuel)
  let ?batch = "get_articles_batch (db s) batch_size (last_id s)"
  have b: "?batch \<noteq> []" using Suc.prems by (simp add: get_articles_batch_nonempty)
  obtain c ub where r: "run_llm_workers client (completion ?batch) (totals s) [] = (c, ub)"
    by (cases "run_llm_workers client (completion ?batch) (totals s) []")
  let ?s' = "s\<lparr>pages := pages s @ [?batch], totals := c, last_id := cursor_of (last ?batch),
               db := (if ub = [] then db s else upsert (db s) ub)\<rparr>"
  have d: "db ?s' \<noteq> []" using Suc.prems(1) up by simp
  have l: "last_id ?s' = None" by (simp add: cursor_of_None)
  have "backfill_loop (Suc fuel) upsert client completion batch_size None s =
        backfill_loop fuel upsert client completion batch_size None ?s'"
    using b r by (simp add: Let_def)
  then show ?case using Suc.IH [OF d l] by simp
qed

lemma null_merge_bare:
  "model_copy_update (bare_article u t c) (to_article_fields null_summary) = bare_article u t c"
  by (simp add: model_copy_update_def to_article_fields_def model_dump_llm_def Let_def
        null_summary_def of_str_def of_strlist_def of_float_def of_ticker_items_def
        of_keyword_groups_def setattr_article_def bare_article_def)


lemma process_one_null_bare:
  "process_one (\<lambda>a. Some null_summary) (bare_article u t c) = Some (bare_article u t c)"
  by (simp add: process_one_def summarize_article_def to_article_fields_nonempty null_merge_bare)

lemma one_page:
  "get_articles_batch one_article_store (Suc 0) None = [bare_article ''u'' ''t'' ''c'']"
  by (simp add: get_articles_batch_def one_article_store_def)

lemma upsert_same:
  "upsert_many_articles 0 one_article_store [bare_article ''u'' ''t'' ''c''] = one_article_store"
  by (simp add: upsert_many_articles_def one_article_store_def stored_url_def bare_article_sel)

text \<open>
  C1 does not hold of the code. \<open>get_articles_batch\<close> returns \<open>Article\<close>s, which carry
  neither \<^verbatim>\<open>id\<close> nor \<^verbatim>\<open>_id\<close>, so the cursor stays \<^verbatim>\<open>None\<close> and every read returns the first
  page. On a store of one article: without a cap the loop never returns, whatever the
  page size, the client and the fuel; with a cap of two and pages of one article it
  returns after reading the same article twice. On an empty store it returns after
  one read.
\<close>

theorem backfill_rereads_first_page:
  "backfill_articles fuel (upsert_many_articles now) client completion one_article_store
     batch_size None = None \<and>
   backfill_articles (Suc (Suc (Suc 0))) (upsert_many_articles 0) (\<lambda>a. Some null_summary)
     (\<lambda>b. b) one_article_store (Suc 0) (Some 2) =
     Some \<lparr>totals = \<lparr>processed_total = 2, updated_total = 2, failed_total = 0\<rparr>,
           last_id = None, db = one_article_store,
           pages = [[bare_article ''u'' ''t'' ''c''], [bare_article ''u'' ''t'' ''c'']]\<rparr> \<and>
   backfill_articles (Suc 0) upsert client completion [] batch_size None =
     Some \<lparr>totals = \<lparr>processed_total = 0, updated_total = 0, failed_total = 0\<rparr>,
           last_id = None, db = [], pages = [[]]\<rparr>"
proof -
  have ne: "one_article_store \<noteq> []" by (simp add: one_article_store_def)
  have a: "backfill_articles fuel (upsert_many_articles now) client completion one_article_store
     batch_size None = None"
    unfolding backfill_articles_def
    by (rule backfill_loop_never_returns) (simp_all add: upsert_many_articles_nonempty ne)
  have b: "backfill_articles (Suc (Suc (Suc 0))) (upsert_many_articles 0) (\<lambda>a. Some null_summary)
     (\<lambda>b. b) one_article_store (Suc 0) (Some 2) =
     Some \<lparr>totals = \<lparr>processed_total = 2, updated_total = 2, failed_total = 0\<rparr>,
           last_id = None, db = one_article_store,
           pages = [[bare_article ''u'' ''t'' ''c''], [bare_article ''u'' ''t'' ''c'']]\<rparr>"
    by (simp add: backfill_articles_def one_page future_result_def process_one_null_bare Let_def
          upsert_same cursor_of_None)
  have c: "backfill_articles (Suc 0) upsert client completion [] batch_size None =
     Some \<lparr>totals = \<lparr>processed_total = 0, updated_total = 0, failed_total = 0\<rparr>,
           last_id = None, db = [], pages = [[]]\<rparr>"
    by (simp add: backfill_articles_def get_articles_batch_def)
  from a b c show ?thesis by blast
qed

end
